theory Spec2Isabelle
  imports Main "HOL-Library.Word"
begin

unbundle bit_operations_syntax

section \<open>Data model of fake\_page.cpp\<close>

text \<open>
  The embedding follows \<^verbatim>\<open>src/FU_Hypervisor/fake_page.cpp\<close>. Pointers to
  \<^verbatim>\<open>ULONG64\<close>/\<^verbatim>\<open>void*\<close> are 64-bit words, \<^verbatim>\<open>UCHAR\<close> is an 8-bit word,
  C \<^verbatim>\<open>int\<close> values of the CPUID table are integers (no arithmetic on them can
  overflow before the table construction stops, see \<open>SaveCpuinfo\<close>).
\<close>

type_synonym u64 = "64 word"
type_synonym uchar = "8 word"

definition PAGE_SIZE :: nat where
  "PAGE_SIZE = 4096"

text \<open>The WDK macros \<^verbatim>\<open>PAGE_ALIGN\<close> and \<^verbatim>\<open>BYTE_OFFSET\<close>, and HyperPlatform's
  \<^verbatim>\<open>UtilPfnFromPa\<close> (a right shift by the page shift, as line 372 writes it out).\<close>

definition PAGE_ALIGN :: "u64 \<Rightarrow> u64" where
  "PAGE_ALIGN va = va AND NOT 0xFFF"

definition BYTE_OFFSET :: "u64 \<Rightarrow> nat" where
  "BYTE_OFFSET va = unat (va AND 0xFFF)"

definition UtilPfnFromPa :: "u64 \<Rightarrow> u64" where
  "UtilPfnFromPa pa = drop_bit 12 pa"

text \<open>\<^verbatim>\<open>struct FakePageData\<close>. The \<^verbatim>\<open>std::shared_ptr<Page>\<close> is the identity of
  the \<^verbatim>\<open>Page\<close> object it points to: a natural number naming a page of the page
  store below. Two entries share a shadow page exactly when the numbers are equal.\<close>

record FakePageData =
  patch_address :: u64
  target_cr3 :: u64
  shadow_page_base_for_exec :: nat
  pa_base_for_rw :: u64
  pa_base_for_exec :: u64
  original_bytes :: "uchar list"

record Cpuinfo =
  index :: int
  ecx :: int
  cpui :: "int list"

record SharedFakePageData =
  cpuinfo :: "Cpuinfo list"
  all_fp_data :: "FakePageData list"

text \<open>\<^verbatim>\<open>struct ProcessorFakePageData\<close>. \<^verbatim>\<open>last_fp_data\<close> is a pointer to a registry
  element or null; registry elements are never written after their creation, so
  the pointer is modelled by the element it points to.\<close>

record ProcessorFakePageData =
  last_fp_data :: "FakePageData option"
  fault_va :: u64

text \<open>The bit fields of HyperPlatform's \<^verbatim>\<open>EptViolationQualification\<close> and
  \<^verbatim>\<open>EptCommonEntry\<close> that the file reads and writes (their declarations are in
  HyperPlatform's ia32\_type.h). The qualification's access bits carry the prefix
  \<open>q_\<close> because the entry has fields of the same names.\<close>

record EptViolationQualification =
  q_read_access :: bool
  q_write_access :: bool
  q_execute_access :: bool
  ept_readable :: bool
  ept_writeable :: bool
  ept_executable :: bool
  caused_by_translation :: bool

record EptCommonEntry =
  read_access :: bool
  write_access :: bool
  execute_access :: bool
  physial_address :: u64

datatype error =
  AssertionFailure
  | PoolAllocationFailure
  | NullDereference
  | BufferOverrun

datatype event = EptWrite u64 | InveptGlobal

text \<open>
  The state the functions of the file work on. Besides the three objects they
  receive by pointer (\<open>processor_fp_data\<close>, \<open>shared_fp_data\<close>, \<open>ept_data\<close>) it
  holds what they reach through intrinsics and HyperPlatform helpers:
  \<^item> \<open>cr3\<close>, \<open>cr0\<close>: the control registers (\<^verbatim>\<open>__readcr3\<close>, \<^verbatim>\<open>__writecr3\<close>, ...);
  \<^item> \<open>guest_cr3\<close>, \<open>exit_qualification\<close>, \<open>monitor_trap_flag\<close>: the VMCS fields
    read and written with \<^verbatim>\<open>UtilVmRead\<close>/\<^verbatim>\<open>UtilVmWrite\<close>;
  \<^item> \<open>guest_mem c va\<close>: the byte at virtual address \<open>va\<close> seen with paging
    context \<open>c\<close> active (the addresses a caller supplies and those of the
    patched pages are taken to be accessible: the file never checks one);
  \<^item> \<open>pa_of_va c va\<close>: \<^verbatim>\<open>UtilPaFromVa(va)\<close> with paging context \<open>c\<close> active;
  \<^item> \<open>ept_data pfn\<close>: the EPT entry \<^verbatim>\<open>EptGetEptPtEntry\<close> returns for a physical
    address of page frame \<open>pfn\<close> (the file dereferences the result unchecked:
    every frame is taken to have an entry; the entry's \<open>physial_address\<close> holds
    a page frame number);
  \<^item> \<open>page_store p i\<close>: byte \<open>i\<close> of the buffer of \<^verbatim>\<open>Page\<close> object \<open>p\<close>; offsets from
    \<open>PAGE_SIZE\<close> on are the pool bytes that follow the buffer. The buffers live in
    non-paged pool and are taken to be disjoint from the guest memory the
    entries patch;
  \<^item> \<open>page_pa p\<close>: \<^verbatim>\<open>UtilPaFromVa(page->address)\<close> for \<^verbatim>\<open>Page\<close> object \<open>p\<close>;
  \<^item> \<open>pages_allocated\<close>: the number of \<^verbatim>\<open>Page\<close> objects constructed so far (the next
    one gets this number); \<open>pool_avail\<close>: how many more pages
    \<^verbatim>\<open>ExAllocatePoolWithTag\<close> will provide before it returns null;
  \<^item> \<open>events\<close>: the EPT entry writes and the \<^verbatim>\<open>UtilInveptGlobal\<close> calls, in program
    order.
\<close>

record vmm_state =
  cr3 :: u64
  cr0 :: u64
  guest_cr3 :: u64
  exit_qualification :: EptViolationQualification
  monitor_trap_flag :: bool
  guest_mem :: "u64 \<Rightarrow> u64 \<Rightarrow> uchar"
  pa_of_va :: "u64 \<Rightarrow> u64 \<Rightarrow> u64"
  ept_data :: "u64 \<Rightarrow> EptCommonEntry"
  page_store :: "nat \<Rightarrow> nat \<Rightarrow> uchar"
  page_pa :: "nat \<Rightarrow> u64"
  pages_allocated :: nat
  pool_avail :: nat
  processor_fp_data :: ProcessorFakePageData
  shared_fp_data :: "SharedFakePageData option"
  events :: "event list"

section \<open>Platform primitives\<close>

definition writecr3 :: "u64 \<Rightarrow> vmm_state \<Rightarrow> vmm_state" where
  "writecr3 v s = s\<lparr>cr3 := v\<rparr>"

definition writecr0 :: "u64 \<Rightarrow> vmm_state \<Rightarrow> vmm_state" where
  "writecr0 v s = s\<lparr>cr0 := v\<rparr>"

text \<open>\<^verbatim>\<open>cr0_new.fields.wp = false\<close>: bit 16 of CR0 is cleared.\<close>

definition clear_wp :: "u64 \<Rightarrow> u64" where
  "clear_wp c = c AND NOT 0x10000"

definition UtilPaFromVa :: "u64 \<Rightarrow> vmm_state \<Rightarrow> u64" where
  "UtilPaFromVa va s = pa_of_va s (cr3 s) va"

definition UtilInveptGlobal :: "vmm_state \<Rightarrow> vmm_state" where
  "UtilInveptGlobal s = s\<lparr>events := events s @ [InveptGlobal]\<rparr>"

definition EptGetEptPtEntry :: "u64 \<Rightarrow> vmm_state \<Rightarrow> EptCommonEntry" where
  "EptGetEptPtEntry pa s = ept_data s (UtilPfnFromPa pa)"

text \<open>One assignment to a field of the entry \<^verbatim>\<open>EptGetEptPtEntry(ept_data, pa)\<close>
  points to.\<close>

definition ept_update ::
  "u64 \<Rightarrow> (EptCommonEntry \<Rightarrow> EptCommonEntry) \<Rightarrow> vmm_state \<Rightarrow> vmm_state" where
  "ept_update pa f s =
     s\<lparr>ept_data := (ept_data s)(UtilPfnFromPa pa := f (ept_data s (UtilPfnFromPa pa))),
       events := events s @ [EptWrite (UtilPfnFromPa pa)]\<rparr>"

text \<open>\<^verbatim>\<open>RtlCopyMemory\<close> between guest memory (through the active paging context) and
  page buffers. \<open>mem_store m va bs\<close> is memory \<open>m\<close> after the bytes \<open>bs\<close> were
  written from address \<open>va\<close> on.\<close>

definition guest_read :: "u64 \<Rightarrow> nat \<Rightarrow> vmm_state \<Rightarrow> uchar list" where
  "guest_read va n s = map (\<lambda>i. guest_mem s (cr3 s) (va + of_nat i)) [0..<n]"

definition mem_store :: "(u64 \<Rightarrow> uchar) \<Rightarrow> u64 \<Rightarrow> uchar list \<Rightarrow> (u64 \<Rightarrow> uchar)" where
  "mem_store m va bs =
     (\<lambda>x. if unat (x - va) < length bs then bs ! unat (x - va) else m x)"

definition guest_write :: "u64 \<Rightarrow> uchar list \<Rightarrow> vmm_state \<Rightarrow> vmm_state" where
  "guest_write va bs s =
     s\<lparr>guest_mem := (guest_mem s)(cr3 s := mem_store (guest_mem s (cr3 s)) va bs)\<rparr>"

definition page_read :: "nat \<Rightarrow> nat \<Rightarrow> nat \<Rightarrow> vmm_state \<Rightarrow> uchar list" where
  "page_read p off n s = map (\<lambda>i. page_store s p (off + i)) [0..<n]"

definition page_write :: "nat \<Rightarrow> nat \<Rightarrow> uchar list \<Rightarrow> vmm_state \<Rightarrow> vmm_state" where
  "page_write p off bs s =
     s\<lparr>page_store := (page_store s)
        (p := (\<lambda>i. if off \<le> i \<and> i < off + length bs then bs ! (i - off)
                   else page_store s p i))\<rparr>"

text \<open>\<^verbatim>\<open>Page::Page()\<close>: allocates a page from non-paged pool and issues a bug check
  when the pool returns null. The buffer's bytes are whatever the pool held.\<close>

definition Page_new :: "vmm_state \<Rightarrow> (error + nat) \<times> vmm_state" where
  "Page_new s =
     (if pool_avail s = 0 then (Inl PoolAllocationFailure, s)
      else (Inr (pages_allocated s),
            s\<lparr>pages_allocated := Suc (pages_allocated s),
              pool_avail := pool_avail s - 1\<rparr>))"

section \<open>Per-processor trap state\<close>

text \<open>\<^verbatim>\<open>FpAllocateProcessorData\<close> zero-fills the structure it allocates (a failed
  allocation returns null to the caller and no structure exists). No function of
  the file assigns \<^verbatim>\<open>fault_va\<close> afterwards: the assignment in
  \<^verbatim>\<open>FpHandleEptViolation\<close> is commented out.\<close>

definition FpAllocateProcessorData :: ProcessorFakePageData where
  "FpAllocateProcessorData = \<lparr>last_fp_data = None, fault_va = 0\<rparr>"

definition FppIsFuActive :: "SharedFakePageData option \<Rightarrow> bool" where
  "FppIsFuActive shared = (shared \<noteq> None)"

definition FppSetMonitorTrapFlag :: "bool \<Rightarrow> vmm_state \<Rightarrow> vmm_state" where
  "FppSetMonitorTrapFlag enable s = s\<lparr>monitor_trap_flag := enable\<rparr>"

text \<open>\<^verbatim>\<open>NT_ASSERT\<close> is modelled as it behaves in a checked build: a failed
  assertion stops the function with the state reached so far.\<close>

definition FppSaveLastFakePageData ::
  "FakePageData \<Rightarrow> vmm_state \<Rightarrow> error option \<times> vmm_state" where
  "FppSaveLastFakePageData fp_data s =
     (if last_fp_data (processor_fp_data s) \<noteq> None then (Some AssertionFailure, s)
      else (None,
        s\<lparr>processor_fp_data := (processor_fp_data s)\<lparr>last_fp_data := Some fp_data\<rparr>\<rparr>))"

definition FppRestoreLastFakePageData ::
  "vmm_state \<Rightarrow> error + (FakePageData \<times> vmm_state)" where
  "FppRestoreLastFakePageData s =
     (case last_fp_data (processor_fp_data s) of
        None \<Rightarrow> Inl AssertionFailure
      | Some fp_data \<Rightarrow>
          Inr (fp_data,
            s\<lparr>processor_fp_data := (processor_fp_data s)\<lparr>last_fp_data := None\<rparr>\<rparr>))"

section \<open>Registry lookups\<close>

definition FppFindFakePageDataByPage ::
  "SharedFakePageData \<Rightarrow> u64 \<Rightarrow> vmm_state \<Rightarrow> FakePageData option" where
  "FppFindFakePageDataByPage shared address s =
     find (\<lambda>fp_data. PAGE_ALIGN (patch_address fp_data) = PAGE_ALIGN address \<and>
                      target_cr3 fp_data = guest_cr3 s)
          (all_fp_data shared)"

definition FppFindFakePageDataByPPage ::
  "SharedFakePageData \<Rightarrow> u64 \<Rightarrow> FakePageData option" where
  "FppFindFakePageDataByPPage shared paddress =
     find (\<lambda>fp_data. drop_bit 12 (pa_base_for_rw fp_data) = drop_bit 12 paddress)
          (all_fp_data shared)"

section \<open>Permission controller\<close>

definition FppEnableFakePageForExec :: "FakePageData \<Rightarrow> vmm_state \<Rightarrow> vmm_state" where
  "FppEnableFakePageForExec fp_data s =
     (let old_cr3 = cr3 s;
          s1 = writecr3 (target_cr3 fp_data) s;
          pa = UtilPaFromVa (patch_address fp_data) s1;
          s2 = ept_update pa (\<lambda>e. e\<lparr>write_access := False\<rparr>) s1;
          s3 = ept_update pa (\<lambda>e. e\<lparr>read_access := False\<rparr>) s2;
          s4 = ept_update pa
                 (\<lambda>e. e\<lparr>physial_address := UtilPfnFromPa (pa_base_for_exec fp_data)\<rparr>) s3;
          s5 = writecr3 old_cr3 s4
      in UtilInveptGlobal s5)"

definition FppEnableFakePageForRw :: "FakePageData \<Rightarrow> vmm_state \<Rightarrow> vmm_state" where
  "FppEnableFakePageForRw fp_data s =
     (let pa = pa_base_for_rw fp_data;
          s1 = ept_update pa (\<lambda>e. e\<lparr>write_access := True\<rparr>) s;
          s2 = ept_update pa (\<lambda>e. e\<lparr>read_access := True\<rparr>) s1;
          s3 = ept_update pa (\<lambda>e. e\<lparr>execute_access := True\<rparr>) s2;
          s4 = ept_update pa
                 (\<lambda>e. e\<lparr>physial_address := UtilPfnFromPa (pa_base_for_rw fp_data)\<rparr>) s3
      in UtilInveptGlobal s4)"

definition FppDisableFakePage :: "FakePageData \<Rightarrow> vmm_state \<Rightarrow> vmm_state" where
  "FppDisableFakePage fp_data s =
     (let old_cr3 = cr3 s;
          s1 = writecr3 (target_cr3 fp_data) s;
          page_base = PAGE_ALIGN (patch_address fp_data);
          pa_base = UtilPaFromVa page_base s1;
          s2 = ept_update pa_base (\<lambda>e. e\<lparr>write_access := True\<rparr>) s1;
          s3 = ept_update pa_base (\<lambda>e. e\<lparr>read_access := True\<rparr>) s2;
          s4 = ept_update pa_base (\<lambda>e. e\<lparr>physial_address := UtilPfnFromPa pa_base\<rparr>) s3;
          s5 = writecr3 old_cr3 s4
      in UtilInveptGlobal s5)"

section \<open>VM-exit handlers\<close>

text \<open>Lines 241 to 254 of \<^verbatim>\<open>FpHandleEptViolation\<close>: the copy of the live page into
  the shadow page around the patched bytes. \<^verbatim>\<open>len\<close> is a C \<^verbatim>\<open>int\<close>; its second value
  \<^verbatim>\<open>PAGE_SIZE - len - original_bytes.size()\<close> is negative when the patched bytes
  cross the end of the page, and \<^verbatim>\<open>RtlCopyMemory\<close> then receives it as a length
  of nearly \<open>2^64\<close> bytes: the copy runs off the pool buffer and never completes.\<close>

definition resync_exec_page ::
  "FakePageData \<Rightarrow> vmm_state \<Rightarrow> error option \<times> vmm_state" where
  "resync_exec_page fp_data s =
     (let vmmcr3 = cr3 s;
          s1 = writecr3 (target_cr3 fp_data) s;
          len = int (unat (patch_address fp_data - PAGE_ALIGN (patch_address fp_data)));
          s2 = page_write (shadow_page_base_for_exec fp_data) 0
                 (guest_read (PAGE_ALIGN (patch_address fp_data)) (nat len) s1) s1;
          len' = int PAGE_SIZE - len - int (length (original_bytes fp_data))
      in if len' < 0 then (Some BufferOverrun, s2)
         else
           let s3 = page_write (shadow_page_base_for_exec fp_data) (nat (int PAGE_SIZE - len'))
                      (guest_read
                         (patch_address fp_data + of_nat (length (original_bytes fp_data)))
                         (nat len') s2) s2;
               s4 = writecr3 vmmcr3 s3
           in (None,
               ept_update (pa_base_for_rw fp_data)
                 (\<lambda>e. e\<lparr>physial_address := UtilPfnFromPa (pa_base_for_exec fp_data)\<rparr>) s4))"

text \<open>\<^verbatim>\<open>FpHandleEptViolation\<close>. The function returns \<^verbatim>\<open>void\<close>; the result is the error
  that stopped it, if any, and the state it left. The first case distinction is
  the test \<^verbatim>\<open>FppIsFuActive(shared_fp_data)\<close>.\<close>

definition FpHandleEptViolation ::
  "u64 \<Rightarrow> u64 \<Rightarrow> vmm_state \<Rightarrow> error option \<times> vmm_state" where
  "FpHandleEptViolation fault_va' fault_pa s =
     (case shared_fp_data s of
        None \<Rightarrow> (None, s)
      | Some shared \<Rightarrow>
          let q = exit_qualification s in
          (case FppFindFakePageDataByPPage shared fault_pa of
             None \<Rightarrow> (None, s)
           | Some fp_data \<Rightarrow>
               let pa = pa_base_for_rw fp_data in
               if \<not> caused_by_translation q then
                 (None,
                  ept_update pa (\<lambda>e. e\<lparr>execute_access := False\<rparr>)
                    (ept_update pa
                       (\<lambda>e. e\<lparr>physial_address := UtilPfnFromPa (pa_base_for_rw fp_data)\<rparr>) s))
               else
                 let read_failure = (q_read_access q \<and> \<not> ept_readable q);
                     write_failure = (q_write_access q \<and> \<not> ept_writeable q);
                     s1 = ept_update pa (\<lambda>e. e\<lparr>write_access := q_write_access q\<rparr>) s;
                     s2 = ept_update pa
                            (\<lambda>e. e\<lparr>read_access := (q_read_access q \<or> q_write_access q)\<rparr>) s1;
                     s3 = ept_update pa (\<lambda>e. e\<lparr>execute_access := q_execute_access q\<rparr>) s2;
                     r = (if write_failure \<or> read_failure then
                            (None,
                             ept_update pa
                               (\<lambda>e. e\<lparr>physial_address :=
                                        UtilPfnFromPa (pa_base_for_rw fp_data)\<rparr>) s3)
                          else resync_exec_page fp_data s3)
                 in (case r of
                       (Some err, s4) \<Rightarrow> (Some err, s4)
                     | (None, s4) \<Rightarrow>
                         if read_access (EptGetEptPtEntry pa s4) \<and>
                            execute_access (EptGetEptPtEntry pa s4)
                         then FppSaveLastFakePageData fp_data (FppSetMonitorTrapFlag True s4)
                         else (None, s4))))"

text \<open>\<^verbatim>\<open>FpHandleMonitorTrapFlag\<close>. \<^verbatim>\<open>NT_VERIFY(FppIsFuActive(...))\<close> asserts in a
  checked build. Line 195 reads the byte at \<^verbatim>\<open>fault_va\<close> with the entry's CR3 loaded;
  the byte is only logged, but the read is performed. \<^verbatim>\<open>fault_va\<close> is the null
  pointer in every state the file produces (it is zero-filled at the allocation
  and never assigned), and a read through the null pointer is a null
  dereference: the handler stops there, the slot already cleared and the CR3 not
  yet restored. A \<^verbatim>\<open>fault_va\<close> that is not null is taken to be accessible.\<close>

definition FpHandleMonitorTrapFlag :: "vmm_state \<Rightarrow> error option \<times> vmm_state" where
  "FpHandleMonitorTrapFlag s =
     (if \<not> FppIsFuActive (shared_fp_data s) then (Some AssertionFailure, s)
      else
        (case FppRestoreLastFakePageData s of
           Inl err \<Rightarrow> (Some err, s)
         | Inr (fp_data, s1) \<Rightarrow>
             let guest_cr3' = target_cr3 fp_data;
                 vmm_cr3 = cr3 s1;
                 s2 = writecr3 guest_cr3' s1
             in if fault_va (processor_fp_data s2) = 0 then (Some NullDereference, s2)
                else
                  let value = guest_mem s2 (cr3 s2) (fault_va (processor_fp_data s2));
                      s3 = writecr3 vmm_cr3 s2;
                      s4 = FppEnableFakePageForExec fp_data s3
                  in (None, FppSetMonitorTrapFlag False s4)))"

section \<open>Management calls\<close>

text \<open>The 48-byte parameter record \<^verbatim>\<open>APIMON_CREATE_SHADOW_PARAMETERS\<close> is copied
  from the caller's address: \<^verbatim>\<open>start_address\<close> is its first eight bytes (little
  endian), \<^verbatim>\<open>original_bytes\<close> the 32 bytes from offset 16.\<close>

definition le_u64 :: "uchar list \<Rightarrow> u64" where
  "le_u64 bs = foldr (\<lambda>b acc. ucast b OR push_bit 8 acc) bs 0"

text \<open>\<^verbatim>\<open>FppCreateFakePageData\<close>: the new entry, or the bug check of \<^verbatim>\<open>Page::Page()\<close>.\<close>

definition FppCreateFakePageData ::
  "SharedFakePageData \<Rightarrow> u64 \<Rightarrow> vmm_state \<Rightarrow> (error + FakePageData) \<times> vmm_state" where
  "FppCreateFakePageData shared context' s =
     (let guest_cr3' = guest_cr3 s;
          vmm_cr3 = cr3 s;
          s1 = writecr3 guest_cr3' s;
          start_address = le_u64 (guest_read context' 8 s1);
          params_original_bytes = guest_read (context' + 16) 32 s1;
          page_base = PAGE_ALIGN start_address;
          pa_base = UtilPaFromVa page_base s1;
          s2 = writecr3 vmm_cr3 s1
      in (case FppFindFakePageDataByPage shared start_address s2 of
            Some reusable_fp_data \<Rightarrow>
              (Inr \<lparr>patch_address = start_address, target_cr3 = guest_cr3',
                    shadow_page_base_for_exec = shadow_page_base_for_exec reusable_fp_data,
                    pa_base_for_rw = pa_base,
                    pa_base_for_exec =
                      page_pa s2 (shadow_page_base_for_exec reusable_fp_data),
                    original_bytes = params_original_bytes\<rparr>, s2)
          | None \<Rightarrow>
              (case Page_new s2 of
                 (Inl err, s3) \<Rightarrow> (Inl err, s3)
               | (Inr page, s3) \<Rightarrow>
                   let s4 = writecr3 guest_cr3' s3;
                       s5 = page_write page 0 (guest_read page_base PAGE_SIZE s4) s4;
                       s6 = writecr3 vmm_cr3 s5
                   in (Inr \<lparr>patch_address = start_address, target_cr3 = guest_cr3',
                             shadow_page_base_for_exec = page,
                             pa_base_for_rw = pa_base,
                             pa_base_for_exec = page_pa s6 page,
                             original_bytes = params_original_bytes\<rparr>, s6))))"

text \<open>\<^verbatim>\<open>FpVmCallCreateFakePage\<close>. \<^verbatim>\<open>std::make_unique\<close> never yields null, so the
  \<^verbatim>\<open>return false\<close> of the source is not reachable. The management calls receive
  \<^verbatim>\<open>shared_fp_data\<close> unchecked; a null pointer is dereferenced at its first use.\<close>

definition FpVmCallCreateFakePage :: "u64 \<Rightarrow> vmm_state \<Rightarrow> error option \<times> vmm_state" where
  "FpVmCallCreateFakePage context' s =
     (case shared_fp_data s of
        None \<Rightarrow> (Some NullDereference, s)
      | Some shared \<Rightarrow>
          (case FppCreateFakePageData shared context' s of
             (Inl err, s1) \<Rightarrow> (Some err, s1)
           | (Inr fp_data, s1) \<Rightarrow>
               (None,
                s1\<lparr>shared_fp_data :=
                     Some (shared\<lparr>all_fp_data := all_fp_data shared @ [fp_data]\<rparr>)\<rparr>)))"

text \<open>The loop of \<^verbatim>\<open>FpVmCallEnableFakePages\<close> over the registry.\<close>

fun enable_loop :: "u64 \<Rightarrow> u64 \<Rightarrow> FakePageData list \<Rightarrow> vmm_state \<Rightarrow> vmm_state" where
  "enable_loop requester_cr3 vmm_cr3 [] s = s"
| "enable_loop requester_cr3 vmm_cr3 (fp_data # rest) s =
     (if target_cr3 fp_data \<noteq> requester_cr3 then enable_loop requester_cr3 vmm_cr3 rest s
      else
        let s1 = writecr3 (target_cr3 fp_data) s;
            s2 = guest_write (patch_address fp_data) (original_bytes fp_data) s1;
            s3 = writecr3 vmm_cr3 s2;
            s4 = FppEnableFakePageForExec fp_data s3
        in enable_loop requester_cr3 vmm_cr3 rest s4)"

definition FpVmCallEnableFakePages :: "vmm_state \<Rightarrow> error option \<times> vmm_state" where
  "FpVmCallEnableFakePages s =
     (let requester_cr3 = guest_cr3 s;
          vmm_cr3 = cr3 s;
          cr0_old = cr0 s;
          s1 = writecr0 (clear_wp cr0_old) s
      in (case shared_fp_data s1 of
            None \<Rightarrow> (Some NullDereference, s1)
          | Some shared \<Rightarrow>
              (None,
               writecr0 cr0_old (enable_loop requester_cr3 vmm_cr3 (all_fp_data shared) s1))))"

text \<open>The loop of \<^verbatim>\<open>FpVmCallDisableFakePages\<close>. The 32 bytes are read from the
  shadow page at \<^verbatim>\<open>BYTE_OFFSET(patch_address)\<close>, whether or not they end inside it.\<close>

fun disable_loop :: "u64 \<Rightarrow> u64 \<Rightarrow> FakePageData list \<Rightarrow> vmm_state \<Rightarrow> vmm_state" where
  "disable_loop requester_cr3 vmm_cr3 [] s = s"
| "disable_loop requester_cr3 vmm_cr3 (fp_data # rest) s =
     (if target_cr3 fp_data \<noteq> requester_cr3 then disable_loop requester_cr3 vmm_cr3 rest s
      else
        let s1 = FppDisableFakePage fp_data s;
            s2 = writecr3 (target_cr3 fp_data) s1;
            s3 = guest_write (patch_address fp_data)
                   (page_read (shadow_page_base_for_exec fp_data)
                      (BYTE_OFFSET (patch_address fp_data))
                      (length (original_bytes fp_data)) s2) s2;
            s4 = writecr3 vmm_cr3 s3
        in disable_loop requester_cr3 vmm_cr3 rest s4)"

definition FpVmCallDisableFakePages :: "vmm_state \<Rightarrow> error option \<times> vmm_state" where
  "FpVmCallDisableFakePages s =
     (let requester_cr3 = guest_cr3 s;
          vmm_cr3 = cr3 s;
          cr0_old = cr0 s;
          s1 = writecr0 (clear_wp cr0_old) s
      in (case shared_fp_data s1 of
            None \<Rightarrow> (Some NullDereference, s1)
          | Some shared \<Rightarrow>
              (None,
               writecr0 cr0_old (disable_loop requester_cr3 vmm_cr3 (all_fp_data shared) s1))))"

text \<open>\<^verbatim>\<open>FpVmCallDeleteFakePages\<close>: \<^verbatim>\<open>std::remove_if\<close> followed by \<^verbatim>\<open>erase\<close> keeps the
  other entries in their order.\<close>

definition FpVmCallDeleteFakePages :: "vmm_state \<Rightarrow> error option \<times> vmm_state" where
  "FpVmCallDeleteFakePages s =
     (let requester_cr3 = guest_cr3 s
      in (case shared_fp_data s of
            None \<Rightarrow> (Some NullDereference, s)
          | Some shared \<Rightarrow>
              (None,
               s\<lparr>shared_fp_data :=
                    Some (shared\<lparr>all_fp_data :=
                      filter (\<lambda>fp_data. \<not> target_cr3 fp_data = requester_cr3)
                        (all_fp_data shared)\<rparr>)\<rparr>)))"

section \<open>CPUID cache\<close>

text \<open>\<open>cpuid leaf subleaf\<close> stands for \<^verbatim>\<open>__cpuidex\<close>: the four registers the
  processor returns. A \<^verbatim>\<open>std::unique_ptr<Cpuinfo>\<close> variable is an optional record:
  \<^verbatim>\<open>push_back(std::move(p))\<close> appends the record to the table and leaves \<open>p\<close> null,
  and \<^verbatim>\<open>p->cpui[0]\<close> on a null \<open>p\<close> is a null dereference.\<close>

definition push_back_move ::
  "Cpuinfo list \<Rightarrow> Cpuinfo option \<Rightarrow> Cpuinfo list \<times> Cpuinfo option" where
  "push_back_move table p = (case p of None \<Rightarrow> (table, None) | Some c \<Rightarrow> (table @ [c], None))"

definition leaf_entries :: "(int \<Rightarrow> int \<Rightarrow> int list) \<Rightarrow> int \<Rightarrow> int \<Rightarrow> Cpuinfo list" where
  "leaf_entries cpuid first bound =
     map (\<lambda>i. \<lparr>index = i, ecx = 0, cpui = cpuid i 0\<rparr>) [first..bound]"

text \<open>\<^verbatim>\<open>SaveCpuinfo\<close> in its three parts: the standard leaves (lines 547 to 558),
  the extended leaves (lines 559 to 568) and the sub-leaves of leaf 4 (lines 569
  to 575). \<^verbatim>\<open>std::make_unique<Cpuinfo>()\<close> value-initialises the record, so the
  \<^verbatim>\<open>index\<close> and \<^verbatim>\<open>ecx\<close> that the source never assigns to \<^verbatim>\<open>cpu80\<close> are 0. The
  literals \<^verbatim>\<open>0x80000000\<close> and \<^verbatim>\<open>0x80000001\<close> are the \<^verbatim>\<open>int\<close> values \<open>- 2147483648\<close> and
  \<open>- 2147483647\<close>.\<close>

definition SaveCpuinfo_topology ::
  "(int \<Rightarrow> int \<Rightarrow> int list) \<Rightarrow> Cpuinfo list \<Rightarrow> Cpuinfo list" where
  "SaveCpuinfo_topology cpuid table =
     table @ map (\<lambda>i. \<lparr>index = 4, ecx = i, cpui = cpuid 4 i\<rparr>) [1..3]"

definition SaveCpuinfo_extended ::
  "(int \<Rightarrow> int \<Rightarrow> int list) \<Rightarrow> Cpuinfo list \<Rightarrow> error option \<times> Cpuinfo list" where
  "SaveCpuinfo_extended cpuid table =
     (let cpu80 = Some \<lparr>index = 0, ecx = 0, cpui = cpuid (- 2147483648) 0\<rparr>;
          (t1, cpu80) = push_back_move table cpu80
      in (case cpu80 of
            None \<Rightarrow> (Some NullDereference, t1)
          | Some c80 \<Rightarrow>
              (None,
               SaveCpuinfo_topology cpuid
                 (t1 @ leaf_entries cpuid (- 2147483647) (cpui c80 ! 0)))))"

definition SaveCpuinfo ::
  "(int \<Rightarrow> int \<Rightarrow> int list) \<Rightarrow> SharedFakePageData \<Rightarrow> error option \<times> SharedFakePageData" where
  "SaveCpuinfo cpuid sharedata =
     (let cpu0 = Some \<lparr>index = 0, ecx = 0, cpui = cpuid 0 0\<rparr>;
          (t1, cpu0) = push_back_move (cpuinfo sharedata) cpu0
      in (case cpu0 of
            None \<Rightarrow> (Some NullDereference, sharedata\<lparr>cpuinfo := t1\<rparr>)
          | Some c0 \<Rightarrow>
              (case SaveCpuinfo_extended cpuid (t1 @ leaf_entries cpuid 1 (cpui c0 ! 0)) of
                 (err, t2) \<Rightarrow> (err, sharedata\<lparr>cpuinfo := t2\<rparr>))))"

definition FpfindCpuid :: "SharedFakePageData \<Rightarrow> int \<Rightarrow> int \<Rightarrow> int list option" where
  "FpfindCpuid sharedata index' subfun =
     (if index' = 4 then
        (case find (\<lambda>c. index c = 4 \<and> ecx c = subfun) (cpuinfo sharedata) of
           None \<Rightarrow> None
         | Some c \<Rightarrow> Some (cpui c))
      else
        (case find (\<lambda>c. index c = index') (cpuinfo sharedata) of
           None \<Rightarrow> None
         | Some c \<Rightarrow> Some (cpui c)))"

definition FpHandleCpuid :: "SharedFakePageData \<Rightarrow> int \<Rightarrow> int \<Rightarrow> int list option" where
  "FpHandleCpuid sharedata index' subfun = FpfindCpuid sharedata index' subfun"

section \<open>A concrete configuration\<close>

text \<open>One entry for the patch at virtual address \<open>0x401000\<close> of the address space
  with CR3 \<open>0x1000\<close>: the original page has frame 7, the shadow page (\<^verbatim>\<open>Page\<close> object
  0) has frame 9. The shadow page holds the patch byte \<open>0xCC\<close> at offset 0, the
  live page holds the original byte 0 there and a byte \<open>0x90\<close> at offset \<open>0x28\<close>
  that the shadow page does not have yet; the hypervisor runs with CR3 \<open>0x2000\<close>.
  At \<open>0x5000\<close> the guest memory holds a parameter record for the creation of an
  entry at \<open>0x401000\<close> with 32 zero bytes as original bytes. The per-processor
  data is as \<open>FpAllocateProcessorData\<close> leaves it. The state is parametrised by the
  exit qualification and by the content of the EPT entries.\<close>

definition ex_fp :: FakePageData where
  "ex_fp = \<lparr>patch_address = 0x401000, target_cr3 = 0x1000, shadow_page_base_for_exec = 0,
            pa_base_for_rw = 0x7000, pa_base_for_exec = 0x9000,
            original_bytes = replicate 32 0\<rparr>"

definition ex_state :: "EptViolationQualification \<Rightarrow> EptCommonEntry \<Rightarrow> vmm_state" where
  "ex_state q e =
     \<lparr>cr3 = 0x2000, cr0 = 0x80010033, guest_cr3 = 0x1000, exit_qualification = q,
      monitor_trap_flag = False,
      guest_mem = (\<lambda>c va. if va = 0x401028 then 0x90 else if va = 0x5001 then 0x10
                         else if va = 0x5002 then 0x40 else 0),
      pa_of_va = (\<lambda>c va. 0x7000 + (va AND 0xFFF)),
      ept_data = (\<lambda>pfn. e),
      page_store = (\<lambda>p i. if i = 0 then 0xCC else 0),
      page_pa = (\<lambda>p. 0x9000),
      pages_allocated = 1, pool_avail = 1,
      processor_fp_data = \<lparr>last_fp_data = None, fault_va = 0\<rparr>,
      shared_fp_data = Some \<lparr>cpuinfo = [], all_fp_data = [ex_fp]\<rparr>,
      events = []\<rparr>"

text \<open>A read whose fault did not arise from the translation of a linear address
  (\<open>caused_by_translation\<close> clear), and an execute-only entry.\<close>

definition q_miss :: EptViolationQualification where
  "q_miss = \<lparr>q_read_access = True, q_write_access = False, q_execute_access = False,
             ept_readable = False, ept_writeable = False, ept_executable = True,
             caused_by_translation = False\<rparr>"

definition e_exec_only :: EptCommonEntry where
  "e_exec_only = \<lparr>read_access = False, write_access = False, execute_access = True,
                  physial_address = 9\<rparr>"

text \<open>An instruction fetch from a page whose entry currently grants read only.\<close>

definition q_fetch :: EptViolationQualification where
  "q_fetch = \<lparr>q_read_access = False, q_write_access = False, q_execute_access = True,
              ept_readable = True, ept_writeable = False, ept_executable = False,
              caused_by_translation = True\<rparr>"

definition e_read_only :: EptCommonEntry where
  "e_read_only = \<lparr>read_access = True, write_access = False, execute_access = False,
                  physial_address = 7\<rparr>"

text \<open>A read that the entry does not permit.\<close>

definition q_read :: EptViolationQualification where
  "q_read = \<lparr>q_read_access = True, q_write_access = False, q_execute_access = False,
             ept_readable = False, ept_writeable = False, ept_executable = True,
             caused_by_translation = True\<rparr>"

text \<open>A qualification that reports a read and an instruction fetch at once.\<close>

definition q_read_fetch :: EptViolationQualification where
  "q_read_fetch = \<lparr>q_read_access = True, q_write_access = False, q_execute_access = True,
                   ept_readable = False, ept_writeable = False, ept_executable = True,
                   caused_by_translation = True\<rparr>"

text \<open>The state in which \<open>FpHandleEptViolation\<close> leaves the concrete
  configuration after such a qualification on the execute-only page.\<close>

definition ex_armed :: vmm_state where
  "ex_armed = snd (FpHandleEptViolation 0x401000 0x7123 (ex_state q_read_fetch e_exec_only))"

section \<open>The live page after the loops of Enable and Disable\<close>

text \<open>The guest memory of the requester's address space after the writes of
  \<open>enable_loop\<close> (the entries' original bytes) and of \<open>disable_loop\<close> (the bytes of
  the shadow pages \<open>ps\<close> at the patch offsets), entry by entry.\<close>

fun live_after_enable ::
  "u64 \<Rightarrow> FakePageData list \<Rightarrow> (u64 \<Rightarrow> uchar) \<Rightarrow> (u64 \<Rightarrow> uchar)" where
  "live_after_enable r [] m = m"
| "live_after_enable r (fp_data # rest) m =
     live_after_enable r rest
       (if target_cr3 fp_data = r
        then mem_store m (patch_address fp_data) (original_bytes fp_data) else m)"

fun live_after_disable ::
  "u64 \<Rightarrow> (nat \<Rightarrow> nat \<Rightarrow> uchar) \<Rightarrow> FakePageData list \<Rightarrow> (u64 \<Rightarrow> uchar) \<Rightarrow> (u64 \<Rightarrow> uchar)" where
  "live_after_disable r ps [] m = m"
| "live_after_disable r ps (fp_data # rest) m =
     live_after_disable r ps rest
       (if target_cr3 fp_data = r
        then mem_store m (patch_address fp_data)
               (map (\<lambda>i. ps (shadow_page_base_for_exec fp_data)
                              (BYTE_OFFSET (patch_address fp_data) + i))
                  [0..<length (original_bytes fp_data)])
        else m)"

text \<open>An address is covered when a registry entry of address space \<open>r\<close> has it
  among its patched bytes.\<close>

definition covered :: "u64 \<Rightarrow> FakePageData list \<Rightarrow> u64 \<Rightarrow> bool" where
  "covered r fps x =
     (\<exists>fp_data \<in> set fps. target_cr3 fp_data = r \<and>
        unat (x - patch_address fp_data) < length (original_bytes fp_data))"

text \<open>The concrete configuration with the patch byte on the live page as well:
  live page and shadow page agree on the 32 patched bytes.\<close>

definition ex_patched :: vmm_state where
  "ex_patched =
     (ex_state q_fetch e_read_only)
       \<lparr>guest_mem := (\<lambda>c va. if va = 0x401000 then 0xCC else 0)\<rparr>"

section \<open>Invalidation after the last write\<close>

text \<open>In a log of events every write of a second-level entry is followed by a
  global invalidation exactly when the log does not end with a write.\<close>

definition writes_invalidated :: "event list \<Rightarrow> bool" where
  "writes_invalidated evs = (evs = [] \<or> last evs = InveptGlobal)"

section \<open>Auxiliary facts\<close>

lemmas prim_defs = writecr3_def writecr0_def UtilPaFromVa_def UtilInveptGlobal_def
  EptGetEptPtEntry_def ept_update_def guest_write_def page_write_def
  FppSetMonitorTrapFlag_def

subsection \<open>Pages and offsets\<close>

lemma page_split: "(x AND NOT 0xFFF) + (x AND 0xFFF) = (x::u64)"
proof -
  have "(x AND NOT 0xFFF) + (x AND 0xFFF) = (x AND NOT 0xFFF) OR (x AND 0xFFF)"
    by (rule disjunctive_add) (auto simp: bit_simps)
  also have "\<dots> = x"
    by (rule bit_eqI) (auto simp: bit_simps)
  finally show ?thesis .
qed

lemma patch_offset: "unat (va - PAGE_ALIGN va) = BYTE_OFFSET va"
proof -
  have "va - (va AND NOT 0xFFF) = va AND 0xFFF"
    using page_split [of va] by (metis add_diff_cancel_left')
  then show ?thesis by (simp only: PAGE_ALIGN_def BYTE_OFFSET_def)
qed

lemma BYTE_OFFSET_less: "BYTE_OFFSET va < PAGE_SIZE"
proof -
  have "unat (va AND 0xFFF) \<le> unat (0xFFF :: u64)"
    by (rule word_and_le1 [THEN word_le_nat_alt [THEN iffD1]])
  then show ?thesis by (simp add: BYTE_OFFSET_def PAGE_SIZE_def)
qed

lemma page_base_plus_offset: "PAGE_ALIGN va + of_nat (BYTE_OFFSET va) = va"
  using page_split [of va] by (simp add: PAGE_ALIGN_def BYTE_OFFSET_def)

subsection \<open>The copy around the patched bytes\<close>

lemma resync_exec_page_inside:
  assumes "BYTE_OFFSET (patch_address fp_data) + length (original_bytes fp_data) \<le> PAGE_SIZE"
  shows "resync_exec_page fp_data s =
     (None,
      s\<lparr>page_store := (page_store s)
          (shadow_page_base_for_exec fp_data :=
             (\<lambda>i. if BYTE_OFFSET (patch_address fp_data) + length (original_bytes fp_data) \<le> i
                      \<and> i < PAGE_SIZE
                   then guest_mem s (target_cr3 fp_data)
                          (PAGE_ALIGN (patch_address fp_data) + of_nat i)
                   else if i < BYTE_OFFSET (patch_address fp_data)
                   then guest_mem s (target_cr3 fp_data)
                          (PAGE_ALIGN (patch_address fp_data) + of_nat i)
                   else page_store s (shadow_page_base_for_exec fp_data) i)),
        ept_data := (ept_data s)
          (UtilPfnFromPa (pa_base_for_rw fp_data) :=
             (ept_data s (UtilPfnFromPa (pa_base_for_rw fp_data)))
               \<lparr>physial_address := UtilPfnFromPa (pa_base_for_exec fp_data)\<rparr>),
        events := events s @ [EptWrite (UtilPfnFromPa (pa_base_for_rw fp_data))]\<rparr>)"
proof -
  let ?off = "BYTE_OFFSET (patch_address fp_data)"
  let ?n = "length (original_bytes fp_data)"
  let ?p = "shadow_page_base_for_exec fp_data"
  define s1 where "s1 = writecr3 (target_cr3 fp_data) s"
  define s2 where
    "s2 = page_write ?p 0 (guest_read (PAGE_ALIGN (patch_address fp_data)) ?off s1) s1"
  define s3 where
    "s3 = page_write ?p (?off + ?n)
            (guest_read (patch_address fp_data + of_nat ?n) (PAGE_SIZE - (?off + ?n)) s2) s2"
  have c: "\<not> (int PAGE_SIZE - int ?off - int ?n < 0)" using assms by linarith
  have n1: "nat (int PAGE_SIZE - int ?off - int ?n) = PAGE_SIZE - (?off + ?n)" by linarith
  have n2: "nat (int PAGE_SIZE - (int PAGE_SIZE - int ?off - int ?n)) = ?off + ?n"
    using assms by linarith
  have r: "resync_exec_page fp_data s =
      (None, ept_update (pa_base_for_rw fp_data)
         (\<lambda>e. e\<lparr>physial_address := UtilPfnFromPa (pa_base_for_exec fp_data)\<rparr>)
         (writecr3 (cr3 s) s3))"
    unfolding resync_exec_page_def Let_def patch_offset n1 n2 s1_def s2_def s3_def
    using c by (simp only: if_False nat_int)
  have va: "patch_address fp_data + of_nat ?n + of_nat j =
      PAGE_ALIGN (patch_address fp_data) + of_nat (?off + ?n + j)" for j
    using page_base_plus_offset [of "patch_address fp_data"] by (simp add: algebra_simps)
  have e1: "s3 = s\<lparr>cr3 := target_cr3 fp_data, page_store := page_store s3\<rparr>"
    by (simp add: s3_def s2_def s1_def page_write_def writecr3_def)
  have pf: "page_store s3 = (page_store s)
          (?p := (\<lambda>i. if ?off + ?n \<le> i \<and> i < PAGE_SIZE
                   then guest_mem s (target_cr3 fp_data)
                          (PAGE_ALIGN (patch_address fp_data) + of_nat i)
                   else if i < ?off
                   then guest_mem s (target_cr3 fp_data)
                          (PAGE_ALIGN (patch_address fp_data) + of_nat i)
                   else page_store s ?p i))"
    using assms
    by (auto simp: s3_def s2_def s1_def page_write_def writecr3_def guest_read_def fun_eq_iff va)
  show ?thesis
    unfolding r by (subst e1, simp add: pf ept_update_def writecr3_def)
qed

lemma resync_exec_page_fields:
  "shared_fp_data (snd (resync_exec_page fp_data s)) = shared_fp_data s"
  "processor_fp_data (snd (resync_exec_page fp_data s)) = processor_fp_data s"
  "monitor_trap_flag (snd (resync_exec_page fp_data s)) = monitor_trap_flag s"
  "guest_mem (snd (resync_exec_page fp_data s)) = guest_mem s"
  "read_access (ept_data (snd (resync_exec_page fp_data s)) k) = read_access (ept_data s k)"
  "write_access (ept_data (snd (resync_exec_page fp_data s)) k) = write_access (ept_data s k)"
  "execute_access (ept_data (snd (resync_exec_page fp_data s)) k) =
     execute_access (ept_data s k)"
  by (simp_all add: resync_exec_page_def Let_def prim_defs)

lemma resync_exec_page_error:
  "fst (resync_exec_page fp_data s) = None \<or>
   fst (resync_exec_page fp_data s) = Some BufferOverrun"
  by (simp add: resync_exec_page_def Let_def)

lemma FppSaveLastFakePageData_fields:
  "ept_data (snd (FppSaveLastFakePageData fp_data s)) = ept_data s"
  "page_store (snd (FppSaveLastFakePageData fp_data s)) = page_store s"
  "shared_fp_data (snd (FppSaveLastFakePageData fp_data s)) = shared_fp_data s"
  "cr3 (snd (FppSaveLastFakePageData fp_data s)) = cr3 s"
  "events (snd (FppSaveLastFakePageData fp_data s)) = events s"
  "monitor_trap_flag (snd (FppSaveLastFakePageData fp_data s)) = monitor_trap_flag s"
  by (simp_all add: FppSaveLastFakePageData_def)

subsection \<open>The concrete configuration\<close>

lemma ex_state_sel:
  "shared_fp_data (ex_state q e) = Some \<lparr>cpuinfo = [], all_fp_data = [ex_fp]\<rparr>"
  "exit_qualification (ex_state q e) = q"
  "ept_data (ex_state q e) = (\<lambda>pfn. e)"
  "events (ex_state q e) = []"
  "cr3 (ex_state q e) = 0x2000"
  "cr0 (ex_state q e) = 0x80010033"
  "guest_cr3 (ex_state q e) = 0x1000"
  "processor_fp_data (ex_state q e) = \<lparr>last_fp_data = None, fault_va = 0\<rparr>"
  "monitor_trap_flag (ex_state q e) = False"
  "page_store (ex_state q e) = (\<lambda>p i. if i = 0 then 0xCC else 0)"
  "guest_mem (ex_state q e) =
     (\<lambda>c va. if va = 0x401028 then 0x90 else if va = 0x5001 then 0x10
             else if va = 0x5002 then 0x40 else 0)"
  "pa_of_va (ex_state q e) = (\<lambda>c va. 0x7000 + (va AND 0xFFF))"
  "page_pa (ex_state q e) = (\<lambda>p. 0x9000)"
  "pages_allocated (ex_state q e) = 1"
  "pool_avail (ex_state q e) = 1"
  by (simp_all add: ex_state_def)

lemma ex_find:
  "FppFindFakePageDataByPPage \<lparr>cpuinfo = [], all_fp_data = [ex_fp]\<rparr> 0x7123 = Some ex_fp"
  by (simp add: FppFindFakePageDataByPPage_def ex_fp_def drop_bit_eq_div)

lemma ex_pfn:
  "UtilPfnFromPa (pa_base_for_rw ex_fp) = 7"
  "UtilPfnFromPa (pa_base_for_exec ex_fp) = 9"
  "UtilPfnFromPa 0x7000 = 7"
  "UtilPfnFromPa 0x9000 = 9"
  by (simp_all add: UtilPfnFromPa_def ex_fp_def drop_bit_eq_div)

lemma ex_fp_sel:
  "patch_address ex_fp = 0x401000"
  "target_cr3 ex_fp = 0x1000"
  "shadow_page_base_for_exec ex_fp = 0"
  "pa_base_for_rw ex_fp = 0x7000"
  "pa_base_for_exec ex_fp = 0x9000"
  "original_bytes ex_fp = replicate 32 0"
  "length (original_bytes ex_fp) = 32"
  by (simp_all add: ex_fp_def)

lemma ex_offset:
  "BYTE_OFFSET (patch_address ex_fp) = 0"
  "PAGE_ALIGN (patch_address ex_fp) = 0x401000"
  "BYTE_OFFSET 0x401000 = 0"
  "PAGE_ALIGN 0x401000 = 0x401000"
  by (simp_all add: BYTE_OFFSET_def PAGE_ALIGN_def ex_fp_def)

subsection \<open>The violation handler on a registered page\<close>

lemma translation_miss_state:
  assumes "shared_fp_data s = Some shared"
    and "FppFindFakePageDataByPPage shared fault_pa = Some fp_data"
    and "\<not> caused_by_translation (exit_qualification s)"
  shows "FpHandleEptViolation fault_va' fault_pa s =
     (None,
      s\<lparr>ept_data := (ept_data s)
           (UtilPfnFromPa (pa_base_for_rw fp_data) :=
              (ept_data s (UtilPfnFromPa (pa_base_for_rw fp_data)))
                \<lparr>physial_address := UtilPfnFromPa (pa_base_for_rw fp_data),
                 execute_access := False\<rparr>),
        events := events s @ [EptWrite (UtilPfnFromPa (pa_base_for_rw fp_data)),
                              EptWrite (UtilPfnFromPa (pa_base_for_rw fp_data))]\<rparr>)"
  using assms by (simp add: FpHandleEptViolation_def ept_update_def Let_def)

lemma permission_fault_bits:
  assumes "shared_fp_data s = Some shared"
    and "FppFindFakePageDataByPPage shared fault_pa = Some fp_data"
    and "caused_by_translation (exit_qualification s)"
  shows "read_access (EptGetEptPtEntry (pa_base_for_rw fp_data)
              (snd (FpHandleEptViolation fault_va' fault_pa s))) =
           (q_read_access (exit_qualification s) \<or> q_write_access (exit_qualification s))"
    and "write_access (EptGetEptPtEntry (pa_base_for_rw fp_data)
              (snd (FpHandleEptViolation fault_va' fault_pa s))) =
           q_write_access (exit_qualification s)"
    and "execute_access (EptGetEptPtEntry (pa_base_for_rw fp_data)
              (snd (FpHandleEptViolation fault_va' fault_pa s))) =
           q_execute_access (exit_qualification s)"
  using assms
  by (simp_all add: FpHandleEptViolation_def Let_def EptGetEptPtEntry_def
        resync_exec_page_fields FppSaveLastFakePageData_fields
        case_prod_beta option.case_eq_if ept_update_def FppSetMonitorTrapFlag_def)

lemma exec_confirmation_state:
  assumes "shared_fp_data s = Some shared"
    and "FppFindFakePageDataByPPage shared fault_pa = Some fp_data"
    and "caused_by_translation (exit_qualification s)"
    and "\<not> (q_read_access (exit_qualification s) \<and> \<not> ept_readable (exit_qualification s))"
    and "\<not> (q_write_access (exit_qualification s) \<and> \<not> ept_writeable (exit_qualification s))"
    and "BYTE_OFFSET (patch_address fp_data) + length (original_bytes fp_data) \<le> PAGE_SIZE"
  shows "page_store (snd (FpHandleEptViolation fault_va' fault_pa s)) =
      (page_store s)
          (shadow_page_base_for_exec fp_data :=
             (\<lambda>i. if BYTE_OFFSET (patch_address fp_data) + length (original_bytes fp_data) \<le> i
                      \<and> i < PAGE_SIZE
                   then guest_mem s (target_cr3 fp_data)
                          (PAGE_ALIGN (patch_address fp_data) + of_nat i)
                   else if i < BYTE_OFFSET (patch_address fp_data)
                   then guest_mem s (target_cr3 fp_data)
                          (PAGE_ALIGN (patch_address fp_data) + of_nat i)
                   else page_store s (shadow_page_base_for_exec fp_data) i))"
    and "physial_address (EptGetEptPtEntry (pa_base_for_rw fp_data)
           (snd (FpHandleEptViolation fault_va' fault_pa s))) =
         UtilPfnFromPa (pa_base_for_exec fp_data)"
    and "fst (FpHandleEptViolation fault_va' fault_pa s) \<noteq> Some BufferOverrun"
proof -
  have wf: "(q_write_access (exit_qualification s) \<and> \<not> ept_writeable (exit_qualification s)) = False"
    and rf: "(q_read_access (exit_qualification s) \<and> \<not> ept_readable (exit_qualification s)) = False"
    using assms(4,5) by simp_all
  note defs = FpHandleEptViolation_def Let_def wf rf resync_exec_page_inside
    FppSaveLastFakePageData_def prim_defs
  show "page_store (snd (FpHandleEptViolation fault_va' fault_pa s)) =
      (page_store s)
          (shadow_page_base_for_exec fp_data :=
             (\<lambda>i. if BYTE_OFFSET (patch_address fp_data) + length (original_bytes fp_data) \<le> i
                      \<and> i < PAGE_SIZE
                   then guest_mem s (target_cr3 fp_data)
                          (PAGE_ALIGN (patch_address fp_data) + of_nat i)
                   else if i < BYTE_OFFSET (patch_address fp_data)
                   then guest_mem s (target_cr3 fp_data)
                          (PAGE_ALIGN (patch_address fp_data) + of_nat i)
                   else page_store s (shadow_page_base_for_exec fp_data) i))"
    using assms(1-3,6) by (simp add: defs cong: if_cong)
  show "physial_address (EptGetEptPtEntry (pa_base_for_rw fp_data)
           (snd (FpHandleEptViolation fault_va' fault_pa s))) =
         UtilPfnFromPa (pa_base_for_exec fp_data)"
    using assms(1-3,6) by (simp add: defs cong: if_cong)
  show "fst (FpHandleEptViolation fault_va' fault_pa s) \<noteq> Some BufferOverrun"
    using assms(1-3,6) by (simp add: defs cong: if_cong)
qed

subsection \<open>What the permission helpers and the loops leave alone\<close>

lemma FppEnableFakePageForExec_frame:
  "FppEnableFakePageForExec fp_data s =
     s\<lparr>ept_data := ept_data (FppEnableFakePageForExec fp_data s),
       events := events (FppEnableFakePageForExec fp_data s)\<rparr>"
  by (simp add: FppEnableFakePageForExec_def Let_def prim_defs)

lemma FppDisableFakePage_frame:
  "FppDisableFakePage fp_data s =
     s\<lparr>ept_data := ept_data (FppDisableFakePage fp_data s),
       events := events (FppDisableFakePage fp_data s)\<rparr>"
  by (simp add: FppDisableFakePage_def Let_def prim_defs)

lemma frame_fields:
  assumes "t = s\<lparr>ept_data := e, events := v\<rparr>"
  shows "cr3 t = cr3 s" "cr0 t = cr0 s" "guest_cr3 t = guest_cr3 s"
    "exit_qualification t = exit_qualification s"
    "monitor_trap_flag t = monitor_trap_flag s" "guest_mem t = guest_mem s"
    "pa_of_va t = pa_of_va s" "page_store t = page_store s" "page_pa t = page_pa s"
    "pages_allocated t = pages_allocated s" "pool_avail t = pool_avail s"
    "processor_fp_data t = processor_fp_data s" "shared_fp_data t = shared_fp_data s"
  using assms by simp_all

lemmas FppEnableFakePageForExec_fields = frame_fields [OF FppEnableFakePageForExec_frame]
lemmas FppDisableFakePage_fields = frame_fields [OF FppDisableFakePage_frame]

lemma enable_loop_fields:
  assumes "cr3 s = vmm_cr3"
  shows "cr3 (enable_loop r vmm_cr3 fps s) = vmm_cr3 \<and>
    cr0 (enable_loop r vmm_cr3 fps s) = cr0 s \<and>
    guest_cr3 (enable_loop r vmm_cr3 fps s) = guest_cr3 s \<and>
    exit_qualification (enable_loop r vmm_cr3 fps s) = exit_qualification s \<and>
    monitor_trap_flag (enable_loop r vmm_cr3 fps s) = monitor_trap_flag s \<and>
    pa_of_va (enable_loop r vmm_cr3 fps s) = pa_of_va s \<and>
    page_store (enable_loop r vmm_cr3 fps s) = page_store s \<and>
    page_pa (enable_loop r vmm_cr3 fps s) = page_pa s \<and>
    pages_allocated (enable_loop r vmm_cr3 fps s) = pages_allocated s \<and>
    pool_avail (enable_loop r vmm_cr3 fps s) = pool_avail s \<and>
    processor_fp_data (enable_loop r vmm_cr3 fps s) = processor_fp_data s \<and>
    shared_fp_data (enable_loop r vmm_cr3 fps s) = shared_fp_data s"
  using assms
proof (induction fps arbitrary: s)
  case Nil
  then show ?case by simp
next
  case (Cons fp_data fps)
  show ?case
  proof (cases "target_cr3 fp_data = r")
    case False
    then show ?thesis using Cons.IH [OF Cons.prems] by simp
  next
    case True
    let ?s4 = "FppEnableFakePageForExec fp_data
        (writecr3 vmm_cr3 (guest_write (patch_address fp_data) (original_bytes fp_data)
           (writecr3 (target_cr3 fp_data) s)))"
    have c: "cr3 ?s4 = vmm_cr3"
      by (simp add: FppEnableFakePageForExec_fields writecr3_def)
    show ?thesis
      using Cons.IH [OF c] True Cons.prems
      by (simp add: Let_def FppEnableFakePageForExec_fields writecr3_def guest_write_def)
  qed
qed

lemma disable_loop_fields:
  assumes "cr3 s = vmm_cr3"
  shows "cr3 (disable_loop r vmm_cr3 fps s) = vmm_cr3 \<and>
    cr0 (disable_loop r vmm_cr3 fps s) = cr0 s \<and>
    guest_cr3 (disable_loop r vmm_cr3 fps s) = guest_cr3 s \<and>
    exit_qualification (disable_loop r vmm_cr3 fps s) = exit_qualification s \<and>
    monitor_trap_flag (disable_loop r vmm_cr3 fps s) = monitor_trap_flag s \<and>
    pa_of_va (disable_loop r vmm_cr3 fps s) = pa_of_va s \<and>
    page_store (disable_loop r vmm_cr3 fps s) = page_store s \<and>
    page_pa (disable_loop r vmm_cr3 fps s) = page_pa s \<and>
    pages_allocated (disable_loop r vmm_cr3 fps s) = pages_allocated s \<and>
    pool_avail (disable_loop r vmm_cr3 fps s) = pool_avail s \<and>
    processor_fp_data (disable_loop r vmm_cr3 fps s) = processor_fp_data s \<and>
    shared_fp_data (disable_loop r vmm_cr3 fps s) = shared_fp_data s"
  using assms
proof (induction fps arbitrary: s)
  case Nil
  then show ?case by simp
next
  case (Cons fp_data fps)
  show ?case
  proof (cases "target_cr3 fp_data = r")
    case False
    then show ?thesis using Cons.IH [OF Cons.prems] by simp
  next
    case True
    let ?s2 = "writecr3 (target_cr3 fp_data) (FppDisableFakePage fp_data s)"
    let ?s4 = "writecr3 vmm_cr3 (guest_write (patch_address fp_data)
           (page_read (shadow_page_base_for_exec fp_data)
              (BYTE_OFFSET (patch_address fp_data)) (length (original_bytes fp_data)) ?s2) ?s2)"
    have c: "cr3 ?s4 = vmm_cr3"
      by (simp add: writecr3_def)
    show ?thesis
      using Cons.IH [OF c] True Cons.prems
      by (simp add: Let_def FppDisableFakePage_fields writecr3_def guest_write_def)
  qed
qed

lemma FpHandleEptViolation_frame:
  "fst (FpHandleEptViolation fault_va' fault_pa s) \<noteq> Some BufferOverrun \<Longrightarrow>
   (snd (FpHandleEptViolation fault_va' fault_pa s))
     \<lparr>monitor_trap_flag := monitor_trap_flag s, ept_data := ept_data s,
      page_store := page_store s, processor_fp_data := processor_fp_data s,
      events := events s\<rparr> = s"
  by (auto simp add: FpHandleEptViolation_def Let_def resync_exec_page_def
        FppSaveLastFakePageData_def prim_defs split: option.splits if_splits)

lemma FpHandleEptViolation_fields:
  "shared_fp_data (snd (FpHandleEptViolation fault_va' fault_pa s)) = shared_fp_data s"
  "guest_mem (snd (FpHandleEptViolation fault_va' fault_pa s)) = guest_mem s"
  by (simp_all add: FpHandleEptViolation_def Let_def resync_exec_page_def
        FppSaveLastFakePageData_def prim_defs split: option.splits)

lemma FpHandleMonitorTrapFlag_frame:
  "fst (FpHandleMonitorTrapFlag s) \<noteq> Some NullDereference \<Longrightarrow>
   (snd (FpHandleMonitorTrapFlag s))
     \<lparr>monitor_trap_flag := monitor_trap_flag s, ept_data := ept_data s,
      processor_fp_data := processor_fp_data s, events := events s\<rparr> = s"
  by (auto simp add: FpHandleMonitorTrapFlag_def FppRestoreLastFakePageData_def Let_def
        FppEnableFakePageForExec_def prim_defs split: option.splits if_splits)

lemma FpHandleMonitorTrapFlag_frame_cr3:
  "(snd (FpHandleMonitorTrapFlag s))
     \<lparr>cr3 := cr3 s, monitor_trap_flag := monitor_trap_flag s, ept_data := ept_data s,
      processor_fp_data := processor_fp_data s, events := events s\<rparr> = s"
  by (simp add: FpHandleMonitorTrapFlag_def FppRestoreLastFakePageData_def Let_def
        FppEnableFakePageForExec_def prim_defs split: option.splits)


lemma FppCreateFakePageData_frame:
  "(snd (FppCreateFakePageData shared context' s))
     \<lparr>page_store := page_store s, pages_allocated := pages_allocated s,
      pool_avail := pool_avail s\<rparr> = s"
  by (simp add: FppCreateFakePageData_def Page_new_def Let_def prim_defs
        split: option.splits)

lemma FpVmCallEnableFakePages_fields:
  "cr3 (snd (FpVmCallEnableFakePages s)) = cr3 s"
  "shared_fp_data (snd (FpVmCallEnableFakePages s)) = shared_fp_data s"
  "processor_fp_data (snd (FpVmCallEnableFakePages s)) = processor_fp_data s"
  "monitor_trap_flag (snd (FpVmCallEnableFakePages s)) = monitor_trap_flag s"
  "page_store (snd (FpVmCallEnableFakePages s)) = page_store s"
  "shared_fp_data s \<noteq> None \<Longrightarrow> fst (FpVmCallEnableFakePages s) = None"
  "shared_fp_data s \<noteq> None \<Longrightarrow> cr0 (snd (FpVmCallEnableFakePages s)) = cr0 s"
  "guest_cr3 (snd (FpVmCallEnableFakePages s)) = guest_cr3 s"
  using enable_loop_fields [of "writecr0 (clear_wp (cr0 s)) s" "cr3 s" "guest_cr3 s"]
  by (auto simp add: FpVmCallEnableFakePages_def Let_def writecr0_def split: option.splits)

lemma FpVmCallDisableFakePages_fields:
  "cr3 (snd (FpVmCallDisableFakePages s)) = cr3 s"
  "shared_fp_data (snd (FpVmCallDisableFakePages s)) = shared_fp_data s"
  "processor_fp_data (snd (FpVmCallDisableFakePages s)) = processor_fp_data s"
  "monitor_trap_flag (snd (FpVmCallDisableFakePages s)) = monitor_trap_flag s"
  "page_store (snd (FpVmCallDisableFakePages s)) = page_store s"
  "shared_fp_data s \<noteq> None \<Longrightarrow> fst (FpVmCallDisableFakePages s) = None"
  "shared_fp_data s \<noteq> None \<Longrightarrow> cr0 (snd (FpVmCallDisableFakePages s)) = cr0 s"
  using disable_loop_fields [of "writecr0 (clear_wp (cr0 s)) s" "cr3 s" "guest_cr3 s"]
  by (auto simp add: FpVmCallDisableFakePages_def Let_def writecr0_def split: option.splits)

lemma FppCreateFakePageData_fields:
  assumes "FppCreateFakePageData shared context' s = (r, s1)"
  shows "cr3 s1 = cr3 s" "processor_fp_data s1 = processor_fp_data s"
    "monitor_trap_flag s1 = monitor_trap_flag s" "guest_mem s1 = guest_mem s"
    "ept_data s1 = ept_data s" "shared_fp_data s1 = shared_fp_data s"
    "cr0 s1 = cr0 s" "events s1 = events s" "guest_cr3 s1 = guest_cr3 s"
proof -
  have e: "s1\<lparr>page_store := page_store s, pages_allocated := pages_allocated s,
      pool_avail := pool_avail s\<rparr> = s"
    using FppCreateFakePageData_frame [where shared = shared and context' = context' and s = s]
    by (simp add: assms)
  show "cr3 s1 = cr3 s" using arg_cong [OF e, of cr3] by simp
  show "processor_fp_data s1 = processor_fp_data s"
    using arg_cong [OF e, of processor_fp_data] by simp
  show "monitor_trap_flag s1 = monitor_trap_flag s"
    using arg_cong [OF e, of monitor_trap_flag] by simp
  show "guest_mem s1 = guest_mem s" using arg_cong [OF e, of guest_mem] by simp
  show "ept_data s1 = ept_data s" using arg_cong [OF e, of ept_data] by simp
  show "shared_fp_data s1 = shared_fp_data s" using arg_cong [OF e, of shared_fp_data] by simp
  show "cr0 s1 = cr0 s" using arg_cong [OF e, of cr0] by simp
  show "events s1 = events s" using arg_cong [OF e, of events] by simp
  show "guest_cr3 s1 = guest_cr3 s" using arg_cong [OF e, of guest_cr3] by simp
qed


lemma FpVmCallCreateFakePage_registry:
  assumes "shared_fp_data s = Some shared"
  shows "case FppCreateFakePageData shared context' s of
           (Inl err, s1) \<Rightarrow> FpVmCallCreateFakePage context' s = (Some err, s1) \<and>
                             shared_fp_data s1 = Some shared
         | (Inr fp_data, s1) \<Rightarrow>
             fst (FpVmCallCreateFakePage context' s) = None \<and>
             shared_fp_data (snd (FpVmCallCreateFakePage context' s)) =
               Some (shared\<lparr>all_fp_data := all_fp_data shared @ [fp_data]\<rparr>)"
  using assms
  by (auto simp add: FpVmCallCreateFakePage_def FppCreateFakePageData_fields
        split: option.splits prod.splits sum.splits)

lemma FpVmCallDeleteFakePages_fields:
  "cr3 (snd (FpVmCallDeleteFakePages s)) = cr3 s"
  "processor_fp_data (snd (FpVmCallDeleteFakePages s)) = processor_fp_data s"
  "monitor_trap_flag (snd (FpVmCallDeleteFakePages s)) = monitor_trap_flag s"
  by (simp_all add: FpVmCallDeleteFakePages_def Let_def split: option.splits)

lemma FpHandleMonitorTrapFlag_fields:
  "shared_fp_data (snd (FpHandleMonitorTrapFlag s)) = shared_fp_data s"
  "guest_mem (snd (FpHandleMonitorTrapFlag s)) = guest_mem s"
  "page_store (snd (FpHandleMonitorTrapFlag s)) = page_store s"
proof -
  note e = FpHandleMonitorTrapFlag_frame_cr3 [of s]
  show "shared_fp_data (snd (FpHandleMonitorTrapFlag s)) = shared_fp_data s"
    using arg_cong [OF e, of shared_fp_data] by simp
  show "guest_mem (snd (FpHandleMonitorTrapFlag s)) = guest_mem s"
    using arg_cong [OF e, of guest_mem] by simp
  show "page_store (snd (FpHandleMonitorTrapFlag s)) = page_store s"
    using arg_cong [OF e, of page_store] by simp
qed



subsection \<open>Creating an entry in the concrete configuration\<close>

lemma upt8: "[0..<8] = [0, 1, 2, 3, 4, 5, 6, 7 :: nat]"
  by code_simp

lemma upt32: "[0..<32] = [0, 1, 2, 3, 4, 5, 6, 7, 8, 9, 10, 11, 12, 13, 14, 15, 16, 17, 18, 19,
   20, 21, 22, 23, 24, 25, 26, 27, 28, 29, 30, 31 :: nat]"
  by code_simp

lemma rep32: "replicate 32 (0::uchar) = [0, 0, 0, 0, 0, 0, 0, 0, 0, 0, 0, 0, 0, 0, 0, 0, 0, 0, 0, 0,
   0, 0, 0, 0, 0, 0, 0, 0, 0, 0, 0, 0]"
  by code_simp

lemma ex_params:
  "le_u64 (guest_read 0x5000 8 (writecr3 0x1000 (ex_state q e))) = 0x401000"
  "guest_read (0x5000 + 16) 32 (writecr3 0x1000 (ex_state q e)) = replicate 32 0"
  unfolding guest_read_def upt8 upt32 rep32
  by (simp_all add: le_u64_def writecr3_def ex_state_sel)

lemma ex_find_page:
  "FppFindFakePageDataByPage \<lparr>cpuinfo = [], all_fp_data = [ex_fp]\<rparr> 0x401000 (ex_state q e) = Some ex_fp"
  by (simp add: FppFindFakePageDataByPage_def ex_state_sel ex_fp_sel ex_offset)

lemma ex_create:
  "FppCreateFakePageData \<lparr>cpuinfo = [], all_fp_data = [ex_fp]\<rparr> 0x5000 (ex_state q e) =
     (Inr ex_fp, ex_state q e)"
proof -
  have a: "(ex_state q e)\<lparr>cr3 := 0x2000\<rparr> = ex_state q e"
    by (simp add: ex_state_def)
  have b: "\<lparr>patch_address = 0x401000, target_cr3 = 0x1000, shadow_page_base_for_exec = 0,
            pa_base_for_rw = 0x7000, pa_base_for_exec = 0x9000,
            original_bytes = replicate 32 0\<rparr> = ex_fp"
    by (simp add: ex_fp_def)
  show ?thesis
    using ex_params [of q e] ex_find_page [of q e]
    by (simp add: FppCreateFakePageData_def Let_def ex_state_sel writecr3_def UtilPaFromVa_def
      ex_offset ex_fp_sel a b)
qed

subsection \<open>The entry and the state a creation yields\<close>

lemma FppCreateFakePageData_eq:
  "FppCreateFakePageData shared context' s =
    (let start_address = le_u64 (guest_read context' 8 (writecr3 (guest_cr3 s) s));
         params_original_bytes = guest_read (context' + 16) 32 (writecr3 (guest_cr3 s) s);
         pa_base = pa_of_va s (guest_cr3 s) (PAGE_ALIGN start_address)
     in case find (\<lambda>fp_data. PAGE_ALIGN (patch_address fp_data) = PAGE_ALIGN start_address \<and>
                      target_cr3 fp_data = guest_cr3 s) (all_fp_data shared) of
          Some reusable_fp_data \<Rightarrow>
            (Inr \<lparr>patch_address = start_address, target_cr3 = guest_cr3 s,
                  shadow_page_base_for_exec = shadow_page_base_for_exec reusable_fp_data,
                  pa_base_for_rw = pa_base,
                  pa_base_for_exec = page_pa s (shadow_page_base_for_exec reusable_fp_data),
                  original_bytes = params_original_bytes\<rparr>, s)
        | None \<Rightarrow>
            if pool_avail s = 0 then (Inl PoolAllocationFailure, s)
            else
              (Inr \<lparr>patch_address = start_address, target_cr3 = guest_cr3 s,
                    shadow_page_base_for_exec = pages_allocated s,
                    pa_base_for_rw = pa_base,
                    pa_base_for_exec = page_pa s (pages_allocated s),
                    original_bytes = params_original_bytes\<rparr>,
               s\<lparr>page_store := (page_store s)
                    (pages_allocated s :=
                       (\<lambda>i. if i < PAGE_SIZE
                             then guest_mem s (guest_cr3 s) (PAGE_ALIGN start_address + of_nat i)
                             else page_store s (pages_allocated s) i)),
                 pages_allocated := Suc (pages_allocated s),
                 pool_avail := pool_avail s - 1\<rparr>))"
proof -
  have pw: "page_write p 0 (guest_read va PAGE_SIZE t) t =
      t\<lparr>page_store := (page_store t)
           (p := (\<lambda>i. if i < PAGE_SIZE then guest_mem t (cr3 t) (va + of_nat i)
                       else page_store t p i))\<rparr>" for p va t
    by (simp add: page_write_def guest_read_def cong: if_cong)
  show ?thesis
    by (simp add: FppCreateFakePageData_def FppFindFakePageDataByPage_def Page_new_def Let_def
        pw UtilPaFromVa_def writecr3_def split: option.splits cong: if_cong)
qed

subsection \<open>The pending slot\<close>

lemma FpHandleMonitorTrapFlag_empty:
  assumes "last_fp_data (processor_fp_data s) = None"
  shows "FppRestoreLastFakePageData s = Inl AssertionFailure"
    and "FpHandleMonitorTrapFlag s = (Some AssertionFailure, s)"
  using assms
  by (simp_all add: FpHandleMonitorTrapFlag_def FppRestoreLastFakePageData_def)

lemma FpHandleMonitorTrapFlag_pending_null:
  assumes "shared_fp_data s = Some shared"
    and "last_fp_data (processor_fp_data s) = Some fp_data"
    and "fault_va (processor_fp_data s) = 0"
  shows "FpHandleMonitorTrapFlag s =
    (Some NullDereference,
     s\<lparr>processor_fp_data := (processor_fp_data s)\<lparr>last_fp_data := None\<rparr>,
       cr3 := target_cr3 fp_data\<rparr>)"
  using assms
  by (simp add: FpHandleMonitorTrapFlag_def FppRestoreLastFakePageData_def FppIsFuActive_def
        Let_def writecr3_def)

lemma FpHandleMonitorTrapFlag_pending:
  assumes "shared_fp_data s = Some shared"
    and "last_fp_data (processor_fp_data s) = Some fp_data"
    and "fault_va (processor_fp_data s) \<noteq> 0"
  shows "FpHandleMonitorTrapFlag s =
    (None,
     s\<lparr>processor_fp_data := (processor_fp_data s)\<lparr>last_fp_data := None\<rparr>,
       ept_data := (ept_data s)
         (UtilPfnFromPa (pa_of_va s (target_cr3 fp_data) (patch_address fp_data)) :=
            (ept_data s (UtilPfnFromPa (pa_of_va s (target_cr3 fp_data) (patch_address fp_data))))
              \<lparr>write_access := False, read_access := False,
               physial_address := UtilPfnFromPa (pa_base_for_exec fp_data)\<rparr>),
       events := events s @
         [EptWrite (UtilPfnFromPa (pa_of_va s (target_cr3 fp_data) (patch_address fp_data))),
          EptWrite (UtilPfnFromPa (pa_of_va s (target_cr3 fp_data) (patch_address fp_data))),
          EptWrite (UtilPfnFromPa (pa_of_va s (target_cr3 fp_data) (patch_address fp_data))),
          InveptGlobal],
       monitor_trap_flag := False\<rparr>)"
  using assms
  by (simp add: FpHandleMonitorTrapFlag_def FppRestoreLastFakePageData_def FppIsFuActive_def
        FppEnableFakePageForExec_def Let_def prim_defs)

lemma ex_armed_sel:
  "fst (FpHandleEptViolation 0x401000 0x7123 (ex_state q_read_fetch e_exec_only)) = None"
  "processor_fp_data ex_armed = \<lparr>last_fp_data = Some ex_fp, fault_va = 0\<rparr>"
  "monitor_trap_flag ex_armed"
  "shared_fp_data ex_armed = Some \<lparr>cpuinfo = [], all_fp_data = [ex_fp]\<rparr>"
  "cr3 ex_armed = 0x2000"
  "ept_data ex_armed 7 =
     \<lparr>read_access = True, write_access = False, execute_access = True, physial_address = 7\<rparr>"
  by (simp_all add: ex_armed_def FpHandleEptViolation_def Let_def ex_state_sel ex_find ex_pfn
        q_read_fetch_def FppSaveLastFakePageData_def prim_defs e_exec_only_def)

lemma ex_armed_trap:
  "FpHandleMonitorTrapFlag ex_armed =
     (Some NullDereference,
      ex_armed\<lparr>processor_fp_data := \<lparr>last_fp_data = None, fault_va = 0\<rparr>, cr3 := 0x1000\<rparr>)"
  using FpHandleMonitorTrapFlag_pending_null [OF ex_armed_sel(4), of ex_fp]
  by (simp add: ex_armed_sel ex_fp_sel)

lemma FpHandleEptViolation_slot:
  "processor_fp_data (snd (FpHandleEptViolation fault_va' fault_pa s)) = processor_fp_data s \<and>
     (monitor_trap_flag (snd (FpHandleEptViolation fault_va' fault_pa s)) \<or>
      \<not> monitor_trap_flag s) \<or>
   last_fp_data (processor_fp_data s) = None \<and>
   (\<exists>fp_data. processor_fp_data (snd (FpHandleEptViolation fault_va' fault_pa s)) =
      (processor_fp_data s)\<lparr>last_fp_data := Some fp_data\<rparr>) \<and>
   monitor_trap_flag (snd (FpHandleEptViolation fault_va' fault_pa s)) \<and>
   fst (FpHandleEptViolation fault_va' fault_pa s) = None"
  by (auto simp add: FpHandleEptViolation_def Let_def resync_exec_page_def
        FppSaveLastFakePageData_def prim_defs split: option.splits if_splits)

lemma FpHandleEptViolation_arm:
  assumes "shared_fp_data s = Some shared"
    and "FppFindFakePageDataByPPage shared fault_pa = Some fp_data"
    and "caused_by_translation (exit_qualification s)"
    and "q_read_access (exit_qualification s) \<or> q_write_access (exit_qualification s)"
    and "q_execute_access (exit_qualification s)"
    and "fst (FpHandleEptViolation fault_va' fault_pa s) \<noteq> Some BufferOverrun"
  shows "if last_fp_data (processor_fp_data s) = None
     then fst (FpHandleEptViolation fault_va' fault_pa s) = None \<and>
          last_fp_data (processor_fp_data (snd (FpHandleEptViolation fault_va' fault_pa s))) =
            Some fp_data \<and>
          monitor_trap_flag (snd (FpHandleEptViolation fault_va' fault_pa s))
     else fst (FpHandleEptViolation fault_va' fault_pa s) = Some AssertionFailure"
  using assms
  by (auto simp add: FpHandleEptViolation_def Let_def resync_exec_page_def
        FppSaveLastFakePageData_def prim_defs split: option.splits if_splits)

subsection \<open>Guest memory after Enable and Disable\<close>

lemma enable_loop_guest_mem:
  assumes "cr3 s = vmm_cr3"
  shows "guest_mem (enable_loop r vmm_cr3 fps s) =
     (guest_mem s)(r := live_after_enable r fps (guest_mem s r))"
  using assms
proof (induction fps arbitrary: s)
  case Nil
  then show ?case by simp
next
  case (Cons fp_data fps)
  show ?case
  proof (cases "target_cr3 fp_data = r")
    case False
    then show ?thesis using Cons.IH [OF Cons.prems] by simp
  next
    case True
    let ?s4 = "FppEnableFakePageForExec fp_data
        (writecr3 vmm_cr3 (guest_write (patch_address fp_data) (original_bytes fp_data)
           (writecr3 (target_cr3 fp_data) s)))"
    have c: "cr3 ?s4 = vmm_cr3"
      by (simp add: FppEnableFakePageForExec_fields writecr3_def)
    have g: "guest_mem ?s4 =
        (guest_mem s)(r := mem_store (guest_mem s r) (patch_address fp_data) (original_bytes fp_data))"
      using True
      by (simp add: FppEnableFakePageForExec_fields writecr3_def guest_write_def)
    have "guest_mem (enable_loop r vmm_cr3 (fp_data # fps) s) =
        guest_mem (enable_loop r vmm_cr3 fps ?s4)"
      using True by (simp add: Let_def)
    also have "\<dots> = (guest_mem ?s4)(r := live_after_enable r fps (guest_mem ?s4 r))"
      by (rule Cons.IH [OF c])
    also have "\<dots> = (guest_mem s)(r := live_after_enable r (fp_data # fps) (guest_mem s r))"
      unfolding g using True by simp
    finally show ?thesis .
  qed
qed

lemma disable_loop_guest_mem:
  assumes "cr3 s = vmm_cr3"
  shows "guest_mem (disable_loop r vmm_cr3 fps s) =
     (guest_mem s)(r := live_after_disable r (page_store s) fps (guest_mem s r))"
  using assms
proof (induction fps arbitrary: s)
  case Nil
  then show ?case by simp
next
  case (Cons fp_data fps)
  show ?case
  proof (cases "target_cr3 fp_data = r")
    case False
    then show ?thesis using Cons.IH [OF Cons.prems] by simp
  next
    case True
    let ?s2 = "writecr3 (target_cr3 fp_data) (FppDisableFakePage fp_data s)"
    let ?s4 = "writecr3 vmm_cr3 (guest_write (patch_address fp_data)
           (page_read (shadow_page_base_for_exec fp_data)
              (BYTE_OFFSET (patch_address fp_data)) (length (original_bytes fp_data)) ?s2) ?s2)"
    have c: "cr3 ?s4 = vmm_cr3"
      by (simp add: writecr3_def)
    have p: "page_store ?s4 = page_store s"
      by (simp add: FppDisableFakePage_fields writecr3_def guest_write_def)
    have g: "guest_mem ?s4 =
        (guest_mem s)(r := mem_store (guest_mem s r) (patch_address fp_data)
           (map (\<lambda>i. page_store s (shadow_page_base_for_exec fp_data)
                              (BYTE_OFFSET (patch_address fp_data) + i))
                  [0..<length (original_bytes fp_data)]))"
      using True
      by (simp add: FppDisableFakePage_fields writecr3_def guest_write_def page_read_def)
    have "guest_mem (disable_loop r vmm_cr3 (fp_data # fps) s) =
        guest_mem (disable_loop r vmm_cr3 fps ?s4)"
      using True by (simp add: Let_def)
    also have "\<dots> = (guest_mem ?s4)
        (r := live_after_disable r (page_store ?s4) fps (guest_mem ?s4 r))"
      by (rule Cons.IH [OF c])
    also have "\<dots> = (guest_mem s)
        (r := live_after_disable r (page_store s) (fp_data # fps) (guest_mem s r))"
      unfolding g p using True by simp
    finally show ?thesis .
  qed
qed

lemma FpVmCallEnableFakePages_guest_mem:
  assumes "shared_fp_data s = Some shared"
  shows "guest_mem (snd (FpVmCallEnableFakePages s)) =
     (guest_mem s)(guest_cr3 s :=
        live_after_enable (guest_cr3 s) (all_fp_data shared) (guest_mem s (guest_cr3 s)))"
  using assms enable_loop_guest_mem [of "writecr0 (clear_wp (cr0 s)) s" "cr3 s" "guest_cr3 s"]
  by (simp add: FpVmCallEnableFakePages_def Let_def writecr0_def)

lemma FpVmCallDisableFakePages_guest_mem:
  assumes "shared_fp_data s = Some shared"
  shows "guest_mem (snd (FpVmCallDisableFakePages s)) =
     (guest_mem s)(guest_cr3 s :=
        live_after_disable (guest_cr3 s) (page_store s) (all_fp_data shared)
          (guest_mem s (guest_cr3 s)))"
  using assms disable_loop_guest_mem [of "writecr0 (clear_wp (cr0 s)) s" "cr3 s" "guest_cr3 s"]
  by (simp add: FpVmCallDisableFakePages_def Let_def writecr0_def)

lemma live_after_enable_outside:
  "\<not> covered r fps x \<Longrightarrow> live_after_enable r fps m x = m x"
  by (induction fps arbitrary: m) (auto simp add: covered_def mem_store_def)

lemma live_after_disable_at:
  assumes "\<forall>fp_data \<in> set fps. target_cr3 fp_data = r \<longrightarrow>
     (\<forall>i < length (original_bytes fp_data).
        ps (shadow_page_base_for_exec fp_data) (BYTE_OFFSET (patch_address fp_data) + i) =
        g (patch_address fp_data + of_nat i))"
  shows "live_after_disable r ps fps m x = (if covered r fps x then g x else m x)"
  using assms
proof (induction fps arbitrary: m)
  case Nil
  then show ?case by (simp add: covered_def)
next
  case (Cons fp_data fps)
  have ih: "live_after_disable r ps fps m' x = (if covered r fps x then g x else m' x)" for m'
    using Cons.IH [of m'] Cons.prems by simp
  have cov: "covered r (fp_data # fps) x =
      (target_cr3 fp_data = r \<and> unat (x - patch_address fp_data) < length (original_bytes fp_data)
       \<or> covered r fps x)"
    by (auto simp add: covered_def)
  show ?case
  proof (cases "target_cr3 fp_data = r \<and>
      unat (x - patch_address fp_data) < length (original_bytes fp_data)")
    case True
    then have "ps (shadow_page_base_for_exec fp_data)
          (BYTE_OFFSET (patch_address fp_data) + unat (x - patch_address fp_data)) =
        g (patch_address fp_data + of_nat (unat (x - patch_address fp_data)))"
      using Cons.prems by simp
    then have "ps (shadow_page_base_for_exec fp_data)
          (BYTE_OFFSET (patch_address fp_data) + unat (x - patch_address fp_data)) = g x"
      by simp
    with True show ?thesis
      by (simp add: ih cov mem_store_def)
  next
    case False
    then show ?thesis
      by (auto simp add: ih cov mem_store_def)
  qed
qed

lemma enable_disable_guest_mem:
  assumes "shared_fp_data s = Some shared"
  shows "guest_mem (snd (FpVmCallDisableFakePages (snd (FpVmCallEnableFakePages s)))) =
     (guest_mem s)(guest_cr3 s :=
        live_after_disable (guest_cr3 s) (page_store s) (all_fp_data shared)
          (live_after_enable (guest_cr3 s) (all_fp_data shared) (guest_mem s (guest_cr3 s))))"
proof -
  let ?t = "snd (FpVmCallEnableFakePages s)"
  have sh: "shared_fp_data ?t = Some shared"
    by (simp add: FpVmCallEnableFakePages_fields assms)
  have ps: "page_store ?t = page_store s"
    by (simp add: FpVmCallEnableFakePages_fields)
  have g: "guest_cr3 ?t = guest_cr3 s"
    using assms enable_loop_fields [of "writecr0 (clear_wp (cr0 s)) s" "cr3 s" "guest_cr3 s"]
    by (simp add: FpVmCallEnableFakePages_def Let_def writecr0_def)
  show ?thesis
    by (simp add: FpVmCallDisableFakePages_guest_mem [OF sh] ps g
          FpVmCallEnableFakePages_guest_mem [OF assms])
qed

lemma small_of_nat_eq_0: "i < 32 \<Longrightarrow> ((of_nat i :: u64) = 0) = (i = 0)"
proof
  assume "i < 32" and "(of_nat i :: u64) = 0"
  then have "unat (0 :: u64) = i"
    by (intro of_nat_inverse) simp_all
  then show "i = 0" by simp
qed simp

lemma ex_patched_sel:
  "shared_fp_data ex_patched = Some \<lparr>cpuinfo = [], all_fp_data = [ex_fp]\<rparr>"
  "guest_cr3 ex_patched = 0x1000"
  "page_store ex_patched = (\<lambda>p i. if i = 0 then 0xCC else 0)"
  "guest_mem ex_patched = (\<lambda>c va. if va = 0x401000 then 0xCC else 0)"
  by (simp_all add: ex_patched_def ex_state_sel)

subsection \<open>Invalidation by the permission helpers\<close>

lemma FppEnableFakePageForExec_invalidates:
  "writes_invalidated (events (FppEnableFakePageForExec fp_data s))"
  by (simp add: FppEnableFakePageForExec_def Let_def writecr3_def ept_update_def
        UtilInveptGlobal_def UtilPaFromVa_def writes_invalidated_def)

lemma FppDisableFakePage_invalidates:
  "writes_invalidated (events (FppDisableFakePage fp_data s))"
  by (simp add: FppDisableFakePage_def Let_def writecr3_def ept_update_def
        UtilInveptGlobal_def UtilPaFromVa_def writes_invalidated_def)

lemma enable_loop_invalidates:
  "writes_invalidated (events s) \<Longrightarrow> writes_invalidated (events (enable_loop r v fps s))"
proof (induction fps arbitrary: s)
  case Nil
  then show ?case by simp
next
  case (Cons fp_data fps)
  show ?case
  proof (cases "target_cr3 fp_data = r")
    case False
    then show ?thesis using Cons.IH [OF Cons.prems] by simp
  next
    case True
    then show ?thesis
      using Cons.IH [OF FppEnableFakePageForExec_invalidates] by (simp add: Let_def)
  qed
qed

lemma disable_loop_invalidates:
  "writes_invalidated (events s) \<Longrightarrow> writes_invalidated (events (disable_loop r v fps s))"
proof (induction fps arbitrary: s)
  case Nil
  then show ?case by simp
next
  case (Cons fp_data fps)
  show ?case
  proof (cases "target_cr3 fp_data = r")
    case False
    then show ?thesis using Cons.IH [OF Cons.prems] by simp
  next
    case True
    let ?s2 = "writecr3 (target_cr3 fp_data) (FppDisableFakePage fp_data s)"
    let ?s4 = "writecr3 v (guest_write (patch_address fp_data)
           (page_read (shadow_page_base_for_exec fp_data)
              (BYTE_OFFSET (patch_address fp_data)) (length (original_bytes fp_data)) ?s2) ?s2)"
    have "events ?s4 = events (FppDisableFakePage fp_data s)"
      by (simp add: writecr3_def guest_write_def)
    then have "writes_invalidated (events ?s4)"
      by (simp add: FppDisableFakePage_invalidates)
    from Cons.IH [OF this] True show ?thesis
      by (simp add: Let_def)
  qed
qed

lemma management_calls_invalidate:
  assumes "writes_invalidated (events s)"
  shows "writes_invalidated (events (snd (FpVmCallEnableFakePages s)))"
    and "writes_invalidated (events (snd (FpVmCallDisableFakePages s)))"
    and "writes_invalidated (events (snd (FpHandleMonitorTrapFlag s)))"
proof -
  have a: "writes_invalidated (events (writecr0 c s))" for c
    using assms by (simp add: writecr0_def)
  show "writes_invalidated (events (snd (FpVmCallEnableFakePages s)))"
    using enable_loop_invalidates [OF a] a
    by (simp add: FpVmCallEnableFakePages_def Let_def writecr0_def split: option.splits)
  show "writes_invalidated (events (snd (FpVmCallDisableFakePages s)))"
    using disable_loop_invalidates [OF a] a
    by (simp add: FpVmCallDisableFakePages_def Let_def writecr0_def split: option.splits)
  show "writes_invalidated (events (snd (FpHandleMonitorTrapFlag s)))"
    using assms FppEnableFakePageForExec_invalidates
    by (simp add: FpHandleMonitorTrapFlag_def FppRestoreLastFakePageData_def Let_def
          FppSetMonitorTrapFlag_def writecr3_def split: option.splits)
qed

section \<open>The claims\<close>

subsection \<open>Granted permissions after a permission fault\<close>

text \<open>
  C1, as the code has it. With the engine active, a registry entry for the
  faulting physical page and a qualification whose \<open>caused_by_translation\<close> bit is
  set, \<open>FpHandleEptViolation\<close> leaves these permission bits in the second-level
  entry of the entry's original page: write is the attempted-write bit of the
  qualification, read is attempted-read or attempted-write, execute is the
  attempted-execute bit. The permissions granted before the fault (the entry's
  own bits, the qualification's \<open>ept_readable\<close> and \<open>ept_writeable\<close>) do not enter
  the result. This holds on every path, also when the handler stops at the
  assertion of \<open>FppSaveLastFakePageData\<close> or in the copy.
\<close>

theorem permission_fault_granted_bits:
  assumes "shared_fp_data s = Some shared"
    and "FppFindFakePageDataByPPage shared fault_pa = Some fp_data"
    and "caused_by_translation (exit_qualification s)"
  shows "read_access (EptGetEptPtEntry (pa_base_for_rw fp_data)
              (snd (FpHandleEptViolation fault_va' fault_pa s))) =
           (q_read_access (exit_qualification s) \<or> q_write_access (exit_qualification s)) \<and>
         write_access (EptGetEptPtEntry (pa_base_for_rw fp_data)
              (snd (FpHandleEptViolation fault_va' fault_pa s))) =
           q_write_access (exit_qualification s) \<and>
         execute_access (EptGetEptPtEntry (pa_base_for_rw fp_data)
              (snd (FpHandleEptViolation fault_va' fault_pa s))) =
           q_execute_access (exit_qualification s)"
  using permission_fault_bits [OF assms] by simp

text \<open>The theorem at the concrete configuration: an instruction fetch from the
  page while its entry grants read only.\<close>

theorem permission_fault_granted_bits_witness:
  "read_access (EptGetEptPtEntry 0x7000
       (snd (FpHandleEptViolation 0x401000 0x7123 (ex_state q_fetch e_read_only)))) = False \<and>
   write_access (EptGetEptPtEntry 0x7000
       (snd (FpHandleEptViolation 0x401000 0x7123 (ex_state q_fetch e_read_only)))) = False \<and>
   execute_access (EptGetEptPtEntry 0x7000
       (snd (FpHandleEptViolation 0x401000 0x7123 (ex_state q_fetch e_read_only)))) = True"
proof -
  have h: "caused_by_translation (exit_qualification (ex_state q_fetch e_read_only))"
    by (simp add: ex_state_sel q_fetch_def)
  show ?thesis
    using permission_fault_granted_bits [OF ex_state_sel(1) ex_find h, of "0x401000"]
    by (simp add: ex_state_sel ex_fp_sel q_fetch_def)
qed

text \<open>C1 as the specification states it fails there: read was granted before
  the fault (the entry's read bit and the qualification's \<open>ept_readable\<close> are
  set), so the union of the granted and the attempted permissions contains read,
  but the handler leaves read denied.\<close>

theorem granted_read_is_dropped:
  "read_access (ept_data (ex_state q_fetch e_read_only) 7) \<and>
   ept_readable (exit_qualification (ex_state q_fetch e_read_only)) \<and>
   \<not> read_access (ept_data
        (snd (FpHandleEptViolation 0x401000 0x7123 (ex_state q_fetch e_read_only))) 7)"
proof -
  have h: "caused_by_translation (exit_qualification (ex_state q_fetch e_read_only))"
    by (simp add: ex_state_sel q_fetch_def)
  show ?thesis
    using permission_fault_bits(1) [OF ex_state_sel(1) ex_find h, of "0x401000"]
    by (simp add: ex_state_sel ex_pfn EptGetEptPtEntry_def q_fetch_def e_read_only_def)
qed

subsection \<open>The copy that confirms execute permission\<close>

text \<open>
  C2. Let the engine be active, the faulting physical page have the registry
  entry \<open>fp_data\<close>, the qualification be permission-caused and contain neither a
  denied read nor a denied write, and the patch offset within the page be at most
  \<open>PAGE_SIZE - 32\<close> (the entry's \<open>original_bytes\<close> has its 32 bytes). Then after
  \<open>FpHandleEptViolation\<close> every byte of the entry's shadow page at an offset outside
  \<open>[offset, offset + 32)\<close> equals the byte of the live page at the same offset, read
  in the entry's address space; the 32 bytes at the patch offset are those the
  shadow page had; and the second-level entry of the original page is backed by
  the exec (shadow) page. The copy does not run off the shadow page.
\<close>

theorem exec_confirmation_resync:
  assumes "shared_fp_data s = Some shared"
    and "FppFindFakePageDataByPPage shared fault_pa = Some fp_data"
    and "caused_by_translation (exit_qualification s)"
    and "\<not> (q_read_access (exit_qualification s) \<and> \<not> ept_readable (exit_qualification s))"
    and "\<not> (q_write_access (exit_qualification s) \<and> \<not> ept_writeable (exit_qualification s))"
    and "length (original_bytes fp_data) = 32"
    and "BYTE_OFFSET (patch_address fp_data) \<le> PAGE_SIZE - 32"
  shows "(\<forall>i<PAGE_SIZE.
            page_store (snd (FpHandleEptViolation fault_va' fault_pa s))
              (shadow_page_base_for_exec fp_data) i =
            (if BYTE_OFFSET (patch_address fp_data) \<le> i \<and>
                i < BYTE_OFFSET (patch_address fp_data) + 32
             then page_store s (shadow_page_base_for_exec fp_data) i
             else guest_mem s (target_cr3 fp_data)
                    (PAGE_ALIGN (patch_address fp_data) + of_nat i))) \<and>
         physial_address (EptGetEptPtEntry (pa_base_for_rw fp_data)
           (snd (FpHandleEptViolation fault_va' fault_pa s))) =
         UtilPfnFromPa (pa_base_for_exec fp_data) \<and>
         fst (FpHandleEptViolation fault_va' fault_pa s) \<noteq> Some BufferOverrun"
proof -
  have inside: "BYTE_OFFSET (patch_address fp_data) + length (original_bytes fp_data) \<le> PAGE_SIZE"
    using assms(6,7) by (simp add: PAGE_SIZE_def)
  note st = exec_confirmation_state [OF assms(1-5) inside]
  show ?thesis
    using st(2,3) assms(6) by (simp add: st(1))
qed

text \<open>The theorem at the concrete configuration: offset 0 keeps the patch byte
  although the live page holds 0 there, offset \<open>0x28\<close> receives the live byte.\<close>

theorem exec_confirmation_resync_witness:
  "page_store (snd (FpHandleEptViolation 0x401000 0x7123 (ex_state q_fetch e_read_only))) 0 0 = 0xCC \<and>
   page_store (snd (FpHandleEptViolation 0x401000 0x7123 (ex_state q_fetch e_read_only))) 0 0x28 = 0x90 \<and>
   physial_address (EptGetEptPtEntry 0x7000
           (snd (FpHandleEptViolation 0x401000 0x7123 (ex_state q_fetch e_read_only)))) = 9"
proof -
  let ?s = "ex_state q_fetch e_read_only"
  have h3: "caused_by_translation (exit_qualification ?s)"
    and h4: "\<not> (q_read_access (exit_qualification ?s) \<and> \<not> ept_readable (exit_qualification ?s))"
    and h5: "\<not> (q_write_access (exit_qualification ?s) \<and> \<not> ept_writeable (exit_qualification ?s))"
    by (simp_all add: ex_state_sel q_fetch_def)
  have h7: "BYTE_OFFSET (patch_address ex_fp) \<le> PAGE_SIZE - 32"
    by (simp add: ex_offset)
  note t = exec_confirmation_resync [OF ex_state_sel(1) ex_find h3 h4 h5 ex_fp_sel(7) h7, of "0x401000"]
  from t have a: "\<forall>i<PAGE_SIZE.
            page_store (snd (FpHandleEptViolation 0x401000 0x7123 ?s)) 0 i =
            (if i < 32 then page_store ?s 0 i
             else guest_mem ?s 0x1000 (0x401000 + of_nat i))"
    by (simp add: ex_fp_sel ex_offset)
  from a have "page_store (snd (FpHandleEptViolation 0x401000 0x7123 ?s)) 0 0 = 0xCC"
    by (simp add: PAGE_SIZE_def ex_state_sel)
  moreover from a have "page_store (snd (FpHandleEptViolation 0x401000 0x7123 ?s)) 0 0x28 = 0x90"
    by (simp add: PAGE_SIZE_def ex_state_sel)
  moreover from t have "physial_address (EptGetEptPtEntry 0x7000
           (snd (FpHandleEptViolation 0x401000 0x7123 ?s))) = 9"
    by (simp add: ex_fp_sel ex_pfn)
  ultimately show ?thesis by simp
qed

subsection \<open>Faults that did not arise from a translation\<close>

text \<open>
  C3, as the code has it. With the engine active and a registry entry for the
  faulting physical page, a qualification whose \<open>caused_by_translation\<close> bit is
  clear makes \<open>FpHandleEptViolation\<close> set the physical backing of the page's
  second-level entry to the original page and deny execute; the entry's read and
  write permissions stay as they were, whatever they were. The handler returns
  without any other effect: no copy, no arming of the single-step trap, no
  invalidation (the state changes in this entry and in the event log only).
\<close>

theorem translation_miss_reset:
  assumes "shared_fp_data s = Some shared"
    and "FppFindFakePageDataByPPage shared fault_pa = Some fp_data"
    and "\<not> caused_by_translation (exit_qualification s)"
  shows "FpHandleEptViolation fault_va' fault_pa s =
     (None,
      s\<lparr>ept_data := (ept_data s)
           (UtilPfnFromPa (pa_base_for_rw fp_data) :=
              (ept_data s (UtilPfnFromPa (pa_base_for_rw fp_data)))
                \<lparr>physial_address := UtilPfnFromPa (pa_base_for_rw fp_data),
                 execute_access := False\<rparr>),
        events := events s @ [EptWrite (UtilPfnFromPa (pa_base_for_rw fp_data)),
                              EptWrite (UtilPfnFromPa (pa_base_for_rw fp_data))]\<rparr>)"
  using translation_miss_state [OF assms] .

theorem translation_miss_reset_witness:
  "FpHandleEptViolation 0x401000 0x7123 (ex_state q_miss e_exec_only) =
     (None,
      (ex_state q_miss e_exec_only)\<lparr>ept_data := (\<lambda>pfn. e_exec_only)
           (7 := \<lparr>read_access = False, write_access = False, execute_access = False,
                  physial_address = 7\<rparr>),
        events := [EptWrite 7, EptWrite 7]\<rparr>)"
proof -
  have h: "\<not> caused_by_translation (exit_qualification (ex_state q_miss e_exec_only))"
    by (simp add: ex_state_sel q_miss_def)
  show ?thesis
    using translation_miss_reset [OF ex_state_sel(1) ex_find h, of "0x401000"]
    by (simp add: ex_pfn ex_state_sel e_exec_only_def)
qed

text \<open>C3 as the specification states it fails on an execute-only page: after the
  reset neither read nor write is permitted.\<close>

theorem translation_miss_keeps_read_write_denied:
  "\<not> read_access (ept_data
        (snd (FpHandleEptViolation 0x401000 0x7123 (ex_state q_miss e_exec_only))) 7) \<and>
   \<not> write_access (ept_data
        (snd (FpHandleEptViolation 0x401000 0x7123 (ex_state q_miss e_exec_only))) 7)"
proof -
  have h: "\<not> caused_by_translation (exit_qualification (ex_state q_miss e_exec_only))"
    by (simp add: ex_state_sel q_miss_def)
  show ?thesis
    using translation_miss_state [OF ex_state_sel(1) ex_find h, of "0x401000"]
    by (simp add: ex_pfn ex_state_sel e_exec_only_def)
qed

subsection \<open>The per-processor pending slot\<close>

text \<open>
  C4 at the state an arming leaves. The per-processor structure starts with an
  empty slot and a null \<open>fault_va\<close> (\<open>FpAllocateProcessorData\<close>), and no function
  assigns \<open>fault_va\<close>. \<open>FpHandleEptViolation\<close> arms the empty slot of the concrete
  configuration: it returns with the entry in the slot and the monitor trap flag
  set. \<open>FpHandleMonitorTrapFlag\<close> in that state takes the entry out of the slot,
  loads the entry's CR3 and reads the byte at \<open>fault_va\<close>, through the null
  pointer: it stops there. The second-level entry of the page still permits
  read and is still backed by the original page, and the monitor trap flag is
  still set: the execute-only state is not re-applied and the single-step
  control is not disabled.
\<close>

theorem trap_handler_stops_at_diagnostic_read:
  "FpAllocateProcessorData = \<lparr>last_fp_data = None, fault_va = 0\<rparr> \<and>
   processor_fp_data (ex_state q_read_fetch e_exec_only) = FpAllocateProcessorData \<and>
   fst (FpHandleEptViolation 0x401000 0x7123 (ex_state q_read_fetch e_exec_only)) = None \<and>
   processor_fp_data ex_armed = \<lparr>last_fp_data = Some ex_fp, fault_va = 0\<rparr> \<and>
   monitor_trap_flag ex_armed \<and>
   FpHandleMonitorTrapFlag ex_armed =
     (Some NullDereference,
      ex_armed\<lparr>processor_fp_data := \<lparr>last_fp_data = None, fault_va = 0\<rparr>, cr3 := 0x1000\<rparr>) \<and>
   monitor_trap_flag (snd (FpHandleMonitorTrapFlag ex_armed)) \<and>
   ept_data (snd (FpHandleMonitorTrapFlag ex_armed)) 7 =
     \<lparr>read_access = True, write_access = False, execute_access = True, physial_address = 7\<rparr>"
  by (simp add: ex_armed_trap ex_armed_sel FpAllocateProcessorData_def ex_state_sel)

subsection \<open>Creating an entry: shared or fresh shadow page\<close>

text \<open>
  C5. \<open>FppCreateFakePageData\<close> reads the patch address from the caller's parameter
  record. If the registry holds an entry with the current guest CR3 as
  \<open>target_cr3\<close> and a patch address on the same page, the new entry refers to the
  shadow page of the first such entry, and the call changes nothing in the state:
  no page is allocated and no byte is copied. Otherwise, unless the pool is
  exhausted (the constructor of \<open>Page\<close> then issues its bug check), the new entry
  refers to a \<open>Page\<close> object that did not exist before (number \<open>pages_allocated s\<close>),
  the only changes of the state are this allocation and one copy: the
  \<open>PAGE_SIZE\<close> bytes of the live page, read with the guest CR3 active, are the
  bytes of the new page.
\<close>

theorem create_shares_or_allocates:
  "let start_address = le_u64 (guest_read context' 8 (writecr3 (guest_cr3 s) s));
       same_page = (\<lambda>fp_data. PAGE_ALIGN (patch_address fp_data) = PAGE_ALIGN start_address \<and>
                                 target_cr3 fp_data = guest_cr3 s)
   in if (\<exists>r \<in> set (all_fp_data shared). same_page r)
      then (\<exists>r fp_data. find same_page (all_fp_data shared) = Some r \<and>
              FppCreateFakePageData shared context' s = (Inr fp_data, s) \<and>
              shadow_page_base_for_exec fp_data = shadow_page_base_for_exec r)
      else if pool_avail s = 0
      then FppCreateFakePageData shared context' s = (Inl PoolAllocationFailure, s)
      else (\<exists>fp_data.
              FppCreateFakePageData shared context' s =
                (Inr fp_data,
                 s\<lparr>page_store := (page_store s)
                      (pages_allocated s :=
                         (\<lambda>i. if i < PAGE_SIZE
                               then guest_mem s (guest_cr3 s) (PAGE_ALIGN start_address + of_nat i)
                               else page_store s (pages_allocated s) i)),
                   pages_allocated := Suc (pages_allocated s),
                   pool_avail := pool_avail s - 1\<rparr>) \<and>
              shadow_page_base_for_exec fp_data = pages_allocated s)"
proof -
  let ?start = "le_u64 (guest_read context' 8 (writecr3 (guest_cr3 s) s))"
  let ?P = "\<lambda>fp_data. PAGE_ALIGN (patch_address fp_data) = PAGE_ALIGN ?start \<and>
                                 target_cr3 fp_data = guest_cr3 s"
  show ?thesis
  proof (cases "find ?P (all_fp_data shared)")
    case None
    then have "\<not> (\<exists>r \<in> set (all_fp_data shared). ?P r)"
      by (simp add: find_None_iff)
    with None show ?thesis
      by (simp add: FppCreateFakePageData_eq Let_def)
  next
    case (Some r)
    then have "\<exists>r \<in> set (all_fp_data shared). ?P r"
      by (auto simp add: find_Some_iff)
    with Some show ?thesis
      by (simp add: FppCreateFakePageData_eq Let_def)
  qed
qed

text \<open>The theorem at the concrete configuration, once with the registry that
  holds an entry for the page and once with an empty registry.\<close>

theorem create_shares_or_allocates_witness:
  "FppCreateFakePageData \<lparr>cpuinfo = [], all_fp_data = [ex_fp]\<rparr> 0x5000
       (ex_state q_fetch e_read_only) = (Inr ex_fp, ex_state q_fetch e_read_only) \<and>
   shadow_page_base_for_exec (projr (fst (FppCreateFakePageData
       \<lparr>cpuinfo = [], all_fp_data = []\<rparr> 0x5000 (ex_state q_fetch e_read_only)))) = 1 \<and>
   pages_allocated (snd (FppCreateFakePageData
       \<lparr>cpuinfo = [], all_fp_data = []\<rparr> 0x5000 (ex_state q_fetch e_read_only))) = 2 \<and>
   page_store (snd (FppCreateFakePageData
       \<lparr>cpuinfo = [], all_fp_data = []\<rparr> 0x5000 (ex_state q_fetch e_read_only))) 1 0x28 = 0x90 \<and>
   page_store (snd (FppCreateFakePageData
       \<lparr>cpuinfo = [], all_fp_data = []\<rparr> 0x5000 (ex_state q_fetch e_read_only))) 1 0 = 0 \<and>
   page_store (snd (FppCreateFakePageData
       \<lparr>cpuinfo = [], all_fp_data = []\<rparr> 0x5000 (ex_state q_fetch e_read_only))) 0 0 = 0xCC"
proof -
  let ?s = "ex_state q_fetch e_read_only"
  have a: "FppCreateFakePageData \<lparr>cpuinfo = [], all_fp_data = [ex_fp]\<rparr> 0x5000 ?s = (Inr ex_fp, ?s)"
    using create_shares_or_allocates [of "0x5000" ?s "\<lparr>cpuinfo = [], all_fp_data = [ex_fp]\<rparr>"]
      ex_create [of q_fetch e_read_only]
    by (simp add: Let_def)
  have "\<exists>fp_data.
          FppCreateFakePageData \<lparr>cpuinfo = [], all_fp_data = []\<rparr> 0x5000 ?s =
            (Inr fp_data,
             ?s\<lparr>page_store := (\<lambda>p i. if i = 0 then 0xCC else 0)
                  (1 := (\<lambda>i. if i < PAGE_SIZE
                           then guest_mem ?s 0x1000 (0x401000 + of_nat i)
                           else 0)),
               pages_allocated := Suc 1, pool_avail := 0\<rparr>) \<and>
          shadow_page_base_for_exec fp_data = 1"
    using create_shares_or_allocates [of "0x5000" ?s "\<lparr>cpuinfo = [], all_fp_data = []\<rparr>"]
    by (simp add: Let_def ex_state_sel ex_params ex_offset PAGE_SIZE_def cong: if_cong)
  then obtain fp_data where
    b: "FppCreateFakePageData \<lparr>cpuinfo = [], all_fp_data = []\<rparr> 0x5000 ?s =
            (Inr fp_data,
             ?s\<lparr>page_store := (\<lambda>p i. if i = 0 then 0xCC else 0)
                  (1 := (\<lambda>i. if i < PAGE_SIZE
                           then guest_mem ?s 0x1000 (0x401000 + of_nat i)
                           else 0)),
               pages_allocated := Suc 1, pool_avail := 0\<rparr>)"
    and c: "shadow_page_base_for_exec fp_data = 1"
    by blast
  show ?thesis
    by (simp add: a b c PAGE_SIZE_def ex_state_sel)
qed

subsection \<open>Enable followed by Disable\<close>

text \<open>
  C6, as the code has it. Enable writes each entry's original bytes onto the
  live page; Disable writes the bytes of the shadow page at the patch offset
  there. Let the address space be one in which, when Enable is called, the
  shadow page of every entry it owns holds at the patch offset the bytes (as
  many as the entry has original bytes, 32) that the live page holds at the
  patch address. Then \<open>FpVmCallEnableFakePages\<close> followed by
  \<open>FpVmCallDisableFakePages\<close> restores every byte of the guest memory to its
  content before the Enable.
\<close>

theorem enable_disable_round_trip:
  assumes "shared_fp_data s = Some shared"
    and "\<forall>fp_data \<in> set (all_fp_data shared). target_cr3 fp_data = guest_cr3 s \<longrightarrow>
           (\<forall>i < length (original_bytes fp_data).
              page_store s (shadow_page_base_for_exec fp_data)
                (BYTE_OFFSET (patch_address fp_data) + i) =
              guest_mem s (guest_cr3 s) (patch_address fp_data + of_nat i))"
  shows "guest_mem (snd (FpVmCallDisableFakePages (snd (FpVmCallEnableFakePages s)))) =
     guest_mem s"
proof -
  let ?r = "guest_cr3 s"
  let ?g = "guest_mem s ?r"
  let ?fps = "all_fp_data shared"
  have "live_after_disable ?r (page_store s) ?fps (live_after_enable ?r ?fps ?g) x = ?g x" for x
    using live_after_disable_at [of ?fps ?r "page_store s" ?g "live_after_enable ?r ?fps ?g" x,
        OF assms(2)]
      live_after_enable_outside [of ?r ?fps x ?g]
    by simp
  then have "live_after_disable ?r (page_store s) ?fps (live_after_enable ?r ?fps ?g) = ?g"
    by (rule ext)
  then show ?thesis
    by (simp add: enable_disable_guest_mem [OF assms(1)])
qed

text \<open>The theorem in a state of the concrete configuration in which the live
  page and the shadow page both hold the patch byte at the patch address.\<close>

theorem enable_disable_round_trip_witness:
  "guest_mem (snd (FpVmCallDisableFakePages (snd (FpVmCallEnableFakePages ex_patched)))) =
     guest_mem ex_patched"
proof -
  have h: "\<forall>fp_data \<in> set (all_fp_data \<lparr>cpuinfo = [], all_fp_data = [ex_fp]\<rparr>).
      target_cr3 fp_data = guest_cr3 ex_patched \<longrightarrow>
           (\<forall>i < length (original_bytes fp_data).
              page_store ex_patched (shadow_page_base_for_exec fp_data)
                (BYTE_OFFSET (patch_address fp_data) + i) =
              guest_mem ex_patched (guest_cr3 ex_patched) (patch_address fp_data + of_nat i))"
    by (simp add: ex_patched_sel ex_fp_sel ex_offset small_of_nat_eq_0)
  show ?thesis
    by (rule enable_disable_round_trip [OF ex_patched_sel(1) h])
qed

text \<open>C6 as the specification states it fails for the second Enable on the same
  address space. The first Enable of the concrete configuration puts the
  original byte 0 at the patch address of the live page; an Enable followed by a
  Disable in the state it leaves ends with the patch byte \<open>0xCC\<close> there.\<close>

theorem enable_disable_writes_patch_bytes:
  "guest_mem (snd (FpVmCallEnableFakePages ex_patched)) 0x1000 0x401000 = 0 \<and>
   guest_mem (snd (FpVmCallDisableFakePages (snd (FpVmCallEnableFakePages
      (snd (FpVmCallEnableFakePages ex_patched)))))) 0x1000 0x401000 = 0xCC"
proof -
  let ?s1 = "snd (FpVmCallEnableFakePages ex_patched)"
  have sh: "shared_fp_data ?s1 = Some \<lparr>cpuinfo = [], all_fp_data = [ex_fp]\<rparr>"
    by (simp add: FpVmCallEnableFakePages_fields ex_patched_sel)
  have ps: "page_store ?s1 = (\<lambda>p i. if i = 0 then 0xCC else 0)"
    by (simp add: FpVmCallEnableFakePages_fields ex_patched_sel)
  have g: "guest_cr3 ?s1 = 0x1000"
    by (simp add: FpVmCallEnableFakePages_fields ex_patched_sel)
  have a: "guest_mem ?s1 0x1000 0x401000 = 0"
    by (simp add: FpVmCallEnableFakePages_guest_mem [OF ex_patched_sel(1)] ex_patched_sel
          ex_fp_sel mem_store_def)
  have b: "guest_mem (snd (FpVmCallDisableFakePages (snd (FpVmCallEnableFakePages ?s1))))
      0x1000 0x401000 = 0xCC"
    by (simp add: enable_disable_guest_mem [OF sh] ps g ex_fp_sel ex_offset mem_store_def)
  show ?thesis using a b by simp
qed

subsection \<open>Invalidation after a transition\<close>

text \<open>
  C7 at the concrete configuration. \<open>FppEnableFakePageForExec\<close> and
  \<open>FppDisableFakePage\<close> end with \<open>UtilInveptGlobal\<close>, so Enable, Disable and the trap
  handler leave no write of a second-level entry without a later invalidation
  (\<open>management_calls_invalidate\<close>). \<open>FpHandleEptViolation\<close> writes the entry itself
  and never invalidates: after the reset on a fault that did not arise from a
  translation, after the switch to the original page on a denied read, and after
  the return to the exec page on an instruction fetch, the log of events ends
  with the handler's writes.
\<close>

theorem dispatcher_writes_not_invalidated:
  "events (snd (FpHandleEptViolation 0x401000 0x7123 (ex_state q_miss e_exec_only))) =
     [EptWrite 7, EptWrite 7] \<and>
   \<not> writes_invalidated
       (events (snd (FpHandleEptViolation 0x401000 0x7123 (ex_state q_miss e_exec_only)))) \<and>
   events (snd (FpHandleEptViolation 0x401000 0x7123 (ex_state q_read e_exec_only))) =
     [EptWrite 7, EptWrite 7, EptWrite 7, EptWrite 7] \<and>
   \<not> writes_invalidated
       (events (snd (FpHandleEptViolation 0x401000 0x7123 (ex_state q_read e_exec_only)))) \<and>
   events (snd (FpHandleEptViolation 0x401000 0x7123 (ex_state q_fetch e_read_only))) =
     [EptWrite 7, EptWrite 7, EptWrite 7, EptWrite 7] \<and>
   \<not> writes_invalidated
       (events (snd (FpHandleEptViolation 0x401000 0x7123 (ex_state q_fetch e_read_only))))"
proof -
  have a: "events (snd (FpHandleEptViolation 0x401000 0x7123 (ex_state q_miss e_exec_only))) =
     [EptWrite 7, EptWrite 7]"
    by (simp add: FpHandleEptViolation_def Let_def ex_state_sel ex_find ex_pfn q_miss_def
          ept_update_def)
  have b: "events (snd (FpHandleEptViolation 0x401000 0x7123 (ex_state q_read e_exec_only))) =
     [EptWrite 7, EptWrite 7, EptWrite 7, EptWrite 7]"
    by (simp add: FpHandleEptViolation_def Let_def ex_state_sel ex_find ex_pfn q_read_def
          FppSaveLastFakePageData_def prim_defs)
  have inside: "BYTE_OFFSET (patch_address ex_fp) + length (original_bytes ex_fp) \<le> PAGE_SIZE"
    by (simp add: ex_offset ex_fp_sel PAGE_SIZE_def)
  have c: "events (snd (FpHandleEptViolation 0x401000 0x7123 (ex_state q_fetch e_read_only))) =
     [EptWrite 7, EptWrite 7, EptWrite 7, EptWrite 7]"
    by (simp add: FpHandleEptViolation_def Let_def ex_state_sel ex_find ex_pfn q_fetch_def
          FppSaveLastFakePageData_def resync_exec_page_inside [OF inside] prim_defs)
  show ?thesis
    by (simp add: a b c writes_invalidated_def)
qed

subsection \<open>The CPUID cache\<close>

text \<open>
  C8. \<open>SaveCpuinfo\<close> never completes the table the claim describes: it moves
  \<open>cpu0\<close> into the table and then reads the bound of the first loop through the
  moved-from (null) pointer. At that point the table holds the record of leaf 0
  only, so a lookup of leaf 1 finds nothing, whatever the processor reports.
  The part for the extended leaves repeats the slip with \<open>cpu80\<close>, and stores the
  record of leaf \<open>0x80000000\<close> under index 0: a lookup of that leaf finds nothing
  either.
\<close>

theorem SaveCpuinfo_stops_at_first_loop:
  "SaveCpuinfo cpuid sharedata =
     (Some NullDereference,
      sharedata\<lparr>cpuinfo := cpuinfo sharedata @ [\<lparr>index = 0, ecx = 0, cpui = cpuid 0 0\<rparr>]\<rparr>) \<and>
   FpHandleCpuid (snd (SaveCpuinfo cpuid \<lparr>cpuinfo = [], all_fp_data = []\<rparr>)) 1 0 = None \<and>
   SaveCpuinfo_extended cpuid table =
     (Some NullDereference,
      table @ [\<lparr>index = 0, ecx = 0, cpui = cpuid (- 2147483648) 0\<rparr>]) \<and>
   FpHandleCpuid \<lparr>cpuinfo = snd (SaveCpuinfo_extended cpuid []), all_fp_data = []\<rparr>
     (- 2147483648) 0 = None"
  by (simp add: SaveCpuinfo_def SaveCpuinfo_extended_def push_back_move_def FpHandleCpuid_def
        FpfindCpuid_def)

subsection \<open>The paging context is restored\<close>



subsection \<open>Who changes the registry\<close>

text \<open>
  C10. \<open>FpHandleEptViolation\<close> and \<open>FpHandleMonitorTrapFlag\<close> leave the registry
  (\<open>shared_fp_data\<close>, with the list \<open>all_fp_data\<close> and every field of every entry)
  exactly as it was, on all their paths; besides the shadow pages' bytes, the
  second-level entries (with the log of their writes), the monitor trap flag and
  the per-processor data they change nothing (for the violation handler: unless
  its copy runs off the shadow page; for the trap handler: the read through a
  null \<open>fault_va\<close> stops it with the entry's CR3 still loaded). Enable and Disable do not change the
  registry either. \<open>FpVmCallCreateFakePage\<close> appends exactly the entry
  \<open>FppCreateFakePageData\<close> built, or leaves the registry alone when the page
  allocation fails; \<open>FpVmCallDeleteFakePages\<close> keeps, in their order, exactly the
  entries whose \<open>target_cr3\<close> is not the requester's CR3, and changes nothing else.
\<close>

theorem registry_frame:
  "shared_fp_data (snd (FpHandleEptViolation fault_va' fault_pa s)) = shared_fp_data s \<and>
   shared_fp_data (snd (FpHandleMonitorTrapFlag s)) = shared_fp_data s \<and>
   (fst (FpHandleEptViolation fault_va' fault_pa s) \<noteq> Some BufferOverrun \<longrightarrow>
      (snd (FpHandleEptViolation fault_va' fault_pa s))
        \<lparr>monitor_trap_flag := monitor_trap_flag s, ept_data := ept_data s,
         page_store := page_store s, processor_fp_data := processor_fp_data s,
         events := events s\<rparr> = s) \<and>
   (snd (FpHandleMonitorTrapFlag s))
     \<lparr>cr3 := cr3 s, monitor_trap_flag := monitor_trap_flag s, ept_data := ept_data s,
      processor_fp_data := processor_fp_data s, events := events s\<rparr> = s \<and>
   (fst (FpHandleMonitorTrapFlag s) \<noteq> Some NullDereference \<longrightarrow>
      (snd (FpHandleMonitorTrapFlag s))
        \<lparr>monitor_trap_flag := monitor_trap_flag s, ept_data := ept_data s,
         processor_fp_data := processor_fp_data s, events := events s\<rparr> = s) \<and>
   shared_fp_data (snd (FpVmCallEnableFakePages s)) = shared_fp_data s \<and>
   shared_fp_data (snd (FpVmCallDisableFakePages s)) = shared_fp_data s \<and>
   (\<forall>shared. shared_fp_data s = Some shared \<longrightarrow>
      (case FppCreateFakePageData shared context' s of
         (Inl err, s1) \<Rightarrow>
           FpVmCallCreateFakePage context' s = (Some err, s1) \<and>
           shared_fp_data s1 = Some shared
       | (Inr fp_data, s1) \<Rightarrow>
           fst (FpVmCallCreateFakePage context' s) = None \<and>
           shared_fp_data (snd (FpVmCallCreateFakePage context' s)) =
             Some (shared\<lparr>all_fp_data := all_fp_data shared @ [fp_data]\<rparr>)) \<and>
      FpVmCallDeleteFakePages s =
        (None,
         s\<lparr>shared_fp_data :=
             Some (shared\<lparr>all_fp_data :=
               filter (\<lambda>fp_data. target_cr3 fp_data \<noteq> guest_cr3 s) (all_fp_data shared)\<rparr>)\<rparr>))"
  using FpHandleEptViolation_frame [of fault_va' fault_pa s]
    FpHandleMonitorTrapFlag_frame [of s] FpHandleMonitorTrapFlag_frame_cr3 [of s]
    FpVmCallCreateFakePage_registry [of s _ context']
  by (simp add: FpHandleEptViolation_fields FpHandleMonitorTrapFlag_fields
        FpVmCallEnableFakePages_fields FpVmCallDisableFakePages_fields
        FpVmCallDeleteFakePages_def)

theorem registry_frame_witness:
  "shared_fp_data (snd (FpHandleEptViolation 0x401000 0x7123 (ex_state q_fetch e_read_only))) =
     Some \<lparr>cpuinfo = [], all_fp_data = [ex_fp]\<rparr> \<and>
   shared_fp_data (snd (FpHandleMonitorTrapFlag (ex_state q_fetch e_read_only))) =
     Some \<lparr>cpuinfo = [], all_fp_data = [ex_fp]\<rparr> \<and>
   (snd (FpHandleEptViolation 0x401000 0x7123 (ex_state q_fetch e_read_only)))
     \<lparr>monitor_trap_flag := False, ept_data := (\<lambda>pfn. e_read_only),
      page_store := (\<lambda>p i. if i = 0 then 0xCC else 0),
      processor_fp_data := \<lparr>last_fp_data = None, fault_va = 0\<rparr>,
      events := []\<rparr> = ex_state q_fetch e_read_only \<and>
   (snd (FpHandleMonitorTrapFlag (ex_state q_fetch e_read_only)))
     \<lparr>monitor_trap_flag := False, ept_data := (\<lambda>pfn. e_read_only),
      processor_fp_data := \<lparr>last_fp_data = None, fault_va = 0\<rparr>,
      events := []\<rparr> = ex_state q_fetch e_read_only \<and>
   shared_fp_data (snd (FpVmCallEnableFakePages (ex_state q_fetch e_read_only))) =
     Some \<lparr>cpuinfo = [], all_fp_data = [ex_fp]\<rparr> \<and>
   shared_fp_data (snd (FpVmCallDisableFakePages (ex_state q_fetch e_read_only))) =
     Some \<lparr>cpuinfo = [], all_fp_data = [ex_fp]\<rparr> \<and>
   fst (FpVmCallCreateFakePage 0x5000 (ex_state q_fetch e_read_only)) = None \<and>
   shared_fp_data (snd (FpVmCallCreateFakePage 0x5000 (ex_state q_fetch e_read_only))) =
     Some \<lparr>cpuinfo = [], all_fp_data = [ex_fp, ex_fp]\<rparr> \<and>
   FpVmCallDeleteFakePages (ex_state q_fetch e_read_only) =
     (None, (ex_state q_fetch e_read_only)
        \<lparr>shared_fp_data := Some \<lparr>cpuinfo = [], all_fp_data = []\<rparr>\<rparr>)"
proof -
  let ?s = "ex_state q_fetch e_read_only"
  have h3: "caused_by_translation (exit_qualification ?s)"
    and h4: "\<not> (q_read_access (exit_qualification ?s) \<and> \<not> ept_readable (exit_qualification ?s))"
    and h5: "\<not> (q_write_access (exit_qualification ?s) \<and> \<not> ept_writeable (exit_qualification ?s))"
    by (simp_all add: ex_state_sel q_fetch_def)
  have h6: "BYTE_OFFSET (patch_address ex_fp) + length (original_bytes ex_fp) \<le> PAGE_SIZE"
    by (simp add: ex_offset ex_fp_sel PAGE_SIZE_def)
  have a: "fst (FpHandleEptViolation 0x401000 0x7123 ?s) \<noteq> Some BufferOverrun"
    by (rule exec_confirmation_state(3) [OF ex_state_sel(1) ex_find h3 h4 h5 h6])
  have b: "fst (FpHandleMonitorTrapFlag ?s) \<noteq> Some NullDereference"
    by (simp add: FpHandleMonitorTrapFlag_empty ex_state_sel)
  show ?thesis
    using registry_frame [of "0x401000" "0x7123" ?s "0x5000"] a b
    by (simp add: ex_state_sel ex_fp_sel ex_create)
qed

end
